theory Spec2Isabelle
  imports
    Complex_Main
    "HOL-Library.AList"
    "HOL-Library.Char_ord"
    "HOL-Library.List_Lexorder"
    "HOL-Library.Product_Lexorder"
    "HOL-Library.Multiset"
begin

section \<open>Data frames\<close>

text \<open>
  \<open>calculate_report\<close> of \<open>app.py\<close> works on a pandas data frame. A cell is a missing
  value (\<open>NaN\<close>, \<open>None\<close>, \<open>NaT\<close>), a text, a number, a parsed timestamp or a
  boolean; a row maps every column name to its cell; a frame is the list of its column
  names with the list of its rows. A row has one cell for a name, so the column names of
  a frame are taken to be distinct, and a row's value at a name that is not a column of
  the frame is never read. A text is a list of code points below 256. A column has the
  dtype pandas gives it when it builds the frame from these values, as \<open>read_csv\<close>,
  \<open>read_excel\<close> and the \<open>DataFrame\<close> constructor do: a column of texts, or of values
  of several kinds, is an \<open>object\<close> column, and a column that has rows and nothing but
  missing cells is a \<open>float64\<close> column of \<open>NaN\<close>.
\<close>

datatype cell = NA | Str string | Num int | Ts int | Bool bool

type_synonym row = "string \<Rightarrow> cell"

record frame =
  columns :: "string list"
  rows :: "row list"

text \<open>
  The exceptions the function can raise, and the two ways it returns: after
  \<open>st.error(msg)\<close> with \<open>(None, None)\<close>, or with the summary and the category sheets.
\<close>

datatype exn = KeyError string | AttributeError | TypeError

text \<open>
  What the function takes from pandas, numpy and the Python runtime, as parameters:
  \<^item> \<open>to_datetime col c\<close>: the timestamp \<open>pd.to_datetime(col, errors='coerce')\<close> gives
    the cell \<open>c\<close> of the column \<open>col\<close>, \<open>None\<close> for \<open>NaT\<close>;
  \<^item> \<open>to_numeric c\<close>: the integer \<open>pd.to_numeric(_, errors='coerce')\<close> followed by
    \<open>astype(int)\<close> gives a cell, \<open>None\<close> where the coercion gives \<open>NaN\<close>;
  \<^item> \<open>str_of c\<close>: \<open>str(c)\<close> of a cell that is not a text;
  \<^item> \<open>sort_values key xs\<close>: \<open>DataFrame.sort_values\<close> on one column (numpy's
    quicksort, which promises no order among equal keys);
  \<^item> \<open>round2 q\<close>: the float \<open>round(a / b, 2)\<close> where \<open>q\<close> is the exact quotient.
\<close>

record pandas =
  to_datetime :: "cell list \<Rightarrow> cell \<Rightarrow> int option"
  to_numeric :: "cell \<Rightarrow> int option"
  str_of :: "cell \<Rightarrow> string"
  sort_values :: "(row \<Rightarrow> int) \<Rightarrow> row list \<Rightarrow> row list"
  round2 :: "rat \<Rightarrow> rat"

subsection \<open>Column operations\<close>

definition column :: "string \<Rightarrow> frame \<Rightarrow> cell list" where
  "column c df = map (\<lambda>r. r c) (rows df)"

text \<open>\<open>df[c] = ...\<close>: the column is replaced where it is, or appended.\<close>

definition assign :: "string \<Rightarrow> (row \<Rightarrow> cell) \<Rightarrow> frame \<Rightarrow> frame" where
  "assign c g df =
     \<lparr>columns = (if c \<in> set (columns df) then columns df else columns df @ [c]),
      rows = map (\<lambda>r. r(c := g r)) (rows df)\<rparr>"

text \<open>\<open>df[mask]\<close>: the rows that satisfy the mask, in order.\<close>

definition select_rows :: "(row \<Rightarrow> bool) \<Rightarrow> frame \<Rightarrow> frame" where
  "select_rows p df = df\<lparr>rows := filter p (rows df)\<rparr>"

text \<open>\<open>df[cols]\<close>: the named columns only.\<close>

definition select_columns :: "string list \<Rightarrow> frame \<Rightarrow> frame" where
  "select_columns cs df =
     \<lparr>columns = cs, rows = map (\<lambda>r c. if c \<in> set cs then r c else NA) (rows df)\<rparr>"

text \<open>\<open>Series.nunique()\<close>: the number of distinct values that are not missing.\<close>

definition nunique :: "cell list \<Rightarrow> nat" where
  "nunique cs = length (remdups (filter (\<lambda>c. c \<noteq> NA) cs))"

subsection \<open>Strings\<close>

text \<open>
  \<open>str.strip()\<close> removes the white space of Python from both ends: among the code
  points below 256 these are 9 to 13, 28 to 32, 133 (next line) and 160 (no-break
  space). \<open>str.lower()\<close> maps the capital letters to their small letters: below 256
  these are 65 to 90 and 192 to 222 without 215 (the multiplication sign), each 32 below
  its small letter.
\<close>

definition is_space :: "char \<Rightarrow> bool" where
  "is_space c =
     (let n = (of_char c :: nat)
      in (9 \<le> n \<and> n \<le> 13) \<or> (28 \<le> n \<and> n \<le> 32) \<or> n = 133 \<or> n = 160)"

definition strip :: "string \<Rightarrow> string" where
  "strip s = rev (dropWhile is_space (rev (dropWhile is_space s)))"

definition lower_char :: "char \<Rightarrow> char" where
  "lower_char c =
     (let n = (of_char c :: nat)
      in if (65 \<le> n \<and> n \<le> 90) \<or> (192 \<le> n \<and> n \<le> 222 \<and> n \<noteq> 215)
         then char_of (n + 32) else c)"

definition lower :: "string \<Rightarrow> string" where
  "lower s = map lower_char s"

text \<open>\<open>Series.str.strip().str.lower()\<close>: a cell that is not a text becomes missing.\<close>

definition str_strip_lower :: "cell \<Rightarrow> cell" where
  "str_strip_lower c = (case c of Str s \<Rightarrow> Str (lower (strip s)) | _ \<Rightarrow> NA)"

section \<open>Validation and normalization\<close>

definition required_cols :: "string list" where
  "required_cols = [''bot'', ''mobile_number'', ''outcome'', ''contacted'', ''date'', ''recording_url'']"

definition missing_cols :: "frame \<Rightarrow> string list" where
  "missing_cols df = filter (\<lambda>col. col \<notin> set (columns df)) required_cols"

text \<open>\<open>', '.join(xs)\<close>\<close>

fun join :: "string \<Rightarrow> string list \<Rightarrow> string" where
  "join sep [] = []"
| "join sep [x] = x"
| "join sep (x # y # ys) = x @ sep @ join sep (y # ys)"

definition error_message :: "string list \<Rightarrow> string" where
  "error_message ms = ''Missing columns: '' @ join '', '' ms"

text \<open>
  The \<open>.str\<close> accessor of a column. pandas infers what the column holds, missing values
  aside, and raises \<open>AttributeError\<close> unless the answer is one of the allowed ones. A
  column of another dtype than \<open>object\<close> is judged by its dtype; an \<open>object\<close> column
  with no value is \<open>empty\<close>, one whose values are all of one kind has the name of the
  kind, and one that mixes kinds is \<open>mixed\<close>, or \<open>mixed-integer\<close> when it has a number.
\<close>

fun is_text :: "cell \<Rightarrow> bool" where
  "is_text (Str s) = True"
| "is_text c = False"

fun is_number :: "cell \<Rightarrow> bool" where
  "is_number (Num n) = True"
| "is_number c = False"

fun is_boolean :: "cell \<Rightarrow> bool" where
  "is_boolean (Bool b) = True"
| "is_boolean c = False"

fun is_timestamp :: "cell \<Rightarrow> bool" where
  "is_timestamp (Ts t) = True"
| "is_timestamp c = False"

definition infer_dtype :: "cell list \<Rightarrow> string" where
  "infer_dtype cs =
     (let vs = filter (\<lambda>c. c \<noteq> NA) cs
      in if cs = [] then ''empty''
         else if vs = [] then ''floating''
         else if list_all is_text vs then ''string''
         else if list_all is_number vs then (if NA \<in> set cs then ''floating'' else ''integer'')
         else if list_all is_boolean vs then ''boolean''
         else if list_all is_timestamp vs then ''datetime64''
         else if list_ex is_number vs then ''mixed-integer''
         else ''mixed'')"

definition allowed_types :: "string list" where
  "allowed_types = [''string'', ''empty'', ''bytes'', ''mixed'', ''mixed-integer'']"

text \<open>
  Line 7, the first statement of the function, before the columns are checked:
  \<open>df['outcome']\<close> raises \<open>KeyError\<close> on a frame with no such column, \<open>.str\<close> raises
  \<open>AttributeError\<close> on a column it refuses, and otherwise the column is stored.
\<close>

definition normalize_outcome :: "frame \<Rightarrow> exn + frame" where
  "normalize_outcome df =
     (if ''outcome'' \<notin> set (columns df) then Inl (KeyError ''outcome'')
      else if infer_dtype (column ''outcome'' df) \<notin> set allowed_types then Inl AttributeError
      else Inr (assign ''outcome'' (\<lambda>r. str_strip_lower (r ''outcome'')) df))"

text \<open>Line 14: \<open>df['date'] = pd.to_datetime(df['date'], errors='coerce')\<close>\<close>

definition parse_dates :: "pandas \<Rightarrow> frame \<Rightarrow> frame" where
  "parse_dates P df =
     assign ''date''
       (\<lambda>r. case to_datetime P (column ''date'' df) (r ''date'') of
              None \<Rightarrow> NA | Some t \<Rightarrow> Ts t) df"

text \<open>Line 15: \<open>df.dropna(subset=['date'])\<close>, a new frame.\<close>

definition dropna_date :: "frame \<Rightarrow> frame" where
  "dropna_date df = select_rows (\<lambda>r. r ''date'' \<noteq> NA) df"

text \<open>Line 17: \<open>pd.to_numeric(df['contacted'], errors='coerce').fillna(0).astype(int)\<close>\<close>

definition coerce_contacted :: "pandas \<Rightarrow> cell \<Rightarrow> cell" where
  "coerce_contacted P c = (case to_numeric P c of None \<Rightarrow> Num 0 | Some n \<Rightarrow> Num n)"

text \<open>Line 18: \<open>df['bot'].fillna('Blank_Bot_Name')\<close>\<close>

definition fill_bot :: "cell \<Rightarrow> cell" where
  "fill_bot c = (if c = NA then Str ''Blank_Bot_Name'' else c)"

text \<open>Line 21: \<open>df['recording_url'].fillna('').astype(str).str.strip()\<close>\<close>

definition clean_url :: "pandas \<Rightarrow> cell \<Rightarrow> cell" where
  "clean_url P c =
     (case c of NA \<Rightarrow> Str (strip []) | Str s \<Rightarrow> Str (strip s) | _ \<Rightarrow> Str (strip (str_of P c)))"

text \<open>Lines 17 to 21, on the frame that \<open>dropna\<close> returned.\<close>

definition coerce_fields :: "pandas \<Rightarrow> frame \<Rightarrow> frame" where
  "coerce_fields P df =
     assign ''recording_url'' (\<lambda>r. clean_url P (r ''recording_url''))
       (assign ''bot'' (\<lambda>r. fill_bot (r ''bot''))
         (assign ''contacted'' (\<lambda>r. coerce_contacted P (r ''contacted'')) df))"


section \<open>Ordering bot names and leads\<close>

text \<open>
  Python compares texts with texts, numbers with numbers and timestamps with
  timestamps; \<open>sorted\<close> on a list that mixes them raises \<open>TypeError\<close>. Texts are
  ordered by code point, lexicographically. A list that mixes booleans with numbers is
  outside the embedding.
\<close>

fun cell_kind :: "cell \<Rightarrow> nat" where
  "cell_kind NA = 0"
| "cell_kind (Str s) = 1"
| "cell_kind (Num n) = 2"
| "cell_kind (Ts t) = 3"
| "cell_kind (Bool b) = 4"

fun cell_key :: "cell \<Rightarrow> int \<times> string" where
  "cell_key NA = (0, [])"
| "cell_key (Str s) = (0, s)"
| "cell_key (Num n) = (n, [])"
| "cell_key (Ts t) = (t, [])"
| "cell_key (Bool b) = (if b then 1 else 0, [])"

definition same_kind :: "cell list \<Rightarrow> bool" where
  "same_kind cs = (case cs of [] \<Rightarrow> True | c # _ \<Rightarrow> list_all (\<lambda>d. cell_kind d = cell_kind c) cs)"

definition py_sorted :: "cell list \<Rightarrow> exn + cell list" where
  "py_sorted cs = (if same_kind cs then Inr (sort_key cell_key cs) else Inl TypeError)"

text \<open>\<open>Series.unique()\<close>: the distinct values in the order of their first appearance.\<close>

definition unique :: "cell list \<Rightarrow> cell list" where
  "unique cs = rev (remdups (rev cs))"

text \<open>Line 23: \<open>all_bots = sorted(df['bot'].unique())\<close>\<close>

definition all_bots :: "frame \<Rightarrow> exn + cell list" where
  "all_bots df = py_sorted (unique (column ''bot'' df))"

section \<open>Latest state per lead\<close>

definition lead_key :: "row \<Rightarrow> cell \<times> cell" where
  "lead_key r = (r ''bot'', r ''mobile_number'')"

definition date_key :: "row \<Rightarrow> int" where
  "date_key r = (case r ''date'' of Ts t \<Rightarrow> t | _ \<Rightarrow> 0)"

text \<open>
  \<open>GroupBy.last()\<close> takes, for each column on its own, the last value of the group
  that is not missing.
\<close>

definition last_valid :: "cell list \<Rightarrow> cell" where
  "last_valid cs = (case filter (\<lambda>c. c \<noteq> NA) cs of [] \<Rightarrow> NA | y # ys \<Rightarrow> last (y # ys))"

definition agg_last :: "row list \<Rightarrow> cell \<times> cell \<Rightarrow> row" where
  "agg_last grp k =
     (\<lambda>c. if c = ''bot'' then fst k
          else if c = ''mobile_number'' then snd k
          else last_valid (map (\<lambda>r. r c) grp))"

text \<open>
  \<open>groupby(['bot', 'mobile_number'], as_index=False)\<close> with its defaults: a row with a
  missing key is in no group (\<open>dropna=True\<close>), the groups come in the order of their
  keys (\<open>sort=True\<close>), and the keys are the first two columns of the result.
\<close>

definition has_key :: "row \<Rightarrow> bool" where
  "has_key r = (r ''bot'' \<noteq> NA \<and> r ''mobile_number'' \<noteq> NA)"

definition group_order :: "cell \<times> cell \<Rightarrow> (nat \<times> int \<times> string) \<times> (nat \<times> int \<times> string)" where
  "group_order k = ((cell_kind (fst k), cell_key (fst k)), (cell_kind (snd k), cell_key (snd k)))"

definition group_keys :: "row list \<Rightarrow> (cell \<times> cell) list" where
  "group_keys rs = sort_key group_order (remdups (map lead_key (filter has_key rs)))"

definition groupby_last :: "frame \<Rightarrow> frame" where
  "groupby_last df =
     \<lparr>columns = [''bot'', ''mobile_number'']
                 @ filter (\<lambda>c. c \<noteq> ''bot'' \<and> c \<noteq> ''mobile_number'') (columns df),
      rows = map (\<lambda>k. agg_last (filter (\<lambda>r. lead_key r = k) (filter has_key (rows df))) k)
                 (group_keys (rows df))\<rparr>"

text \<open>Line 24: \<open>df.sort_values('date').groupby(['bot', 'mobile_number'], as_index=False).last()\<close>\<close>

definition sort_by_date :: "pandas \<Rightarrow> frame \<Rightarrow> frame" where
  "sort_by_date P df = df\<lparr>rows := sort_values P date_key (rows df)\<rparr>"

definition latest_per_lead :: "pandas \<Rightarrow> frame \<Rightarrow> frame" where
  "latest_per_lead P df = groupby_last (sort_by_date P df)"

section \<open>Classification\<close>

definition follow_up_exclude :: "cell list" where
  "follow_up_exclude = [Str ''assign to live agent'', Str ''converted'', Str ''lost'']"

definition is_connected :: "row \<Rightarrow> bool" where
  "is_connected r = (r ''recording_url'' \<noteq> Str [])"

definition is_not_connected :: "row \<Rightarrow> bool" where
  "is_not_connected r = (r ''recording_url'' = Str [])"

definition is_converted :: "row \<Rightarrow> bool" where
  "is_converted r = (r ''outcome'' = Str ''converted'')"

definition is_lost :: "row \<Rightarrow> bool" where
  "is_lost r = (r ''outcome'' = Str ''lost'')"

definition is_assigned :: "row \<Rightarrow> bool" where
  "is_assigned r = (r ''outcome'' = Str ''assign to live agent'')"

definition is_follow_up :: "row \<Rightarrow> bool" where
  "is_follow_up r = (r ''outcome'' \<notin> set follow_up_exclude)"

text \<open>Lines 50 to 55: the six flag columns, added to \<open>latest_per_lead\<close> in place.\<close>

definition add_flags :: "frame \<Rightarrow> frame" where
  "add_flags lp =
     assign ''follow_up_flag'' (\<lambda>r. Bool (is_follow_up r))
       (assign ''assigned_to_agent_flag'' (\<lambda>r. Bool (is_assigned r))
         (assign ''lost_flag'' (\<lambda>r. Bool (is_lost r))
           (assign ''converted_flag'' (\<lambda>r. Bool (is_converted r))
             (assign ''not_connected_flag'' (\<lambda>r. Bool (is_not_connected r))
               (assign ''connected_flag'' (\<lambda>r. Bool (is_connected r)) lp)))))"

definition lead_summary_cols :: "string list" where
  "lead_summary_cols =
     [''bot'', ''mobile_number'', ''date'', ''outcome'',
      ''connected_flag'', ''not_connected_flag'', ''converted_flag'', ''lost_flag'',
      ''assigned_to_agent_flag'', ''follow_up_flag'']"

text \<open>
  Lines 62 to 64: \<open>sort_values(['bot', 'date'], ascending=[True, False])\<close>, a stable sort
  on the two keys.
\<close>

definition lead_summary :: "frame \<Rightarrow> frame" where
  "lead_summary flagged =
     (let t = select_columns lead_summary_cols flagged
      in t\<lparr>rows := sort_key (\<lambda>r. ((cell_kind (r ''bot''), cell_key (r ''bot'')), - date_key r)) (rows t)\<rparr>)"

text \<open>Lines 41 to 47 and 62: the seven sheets, in the order the dictionary receives them.\<close>

definition sheets_by_category :: "frame \<Rightarrow> (string \<times> frame) list" where
  "sheets_by_category lp =
     [(''connected'', select_rows is_connected lp),
      (''not_connected'', select_rows is_not_connected lp),
      (''converted'', select_rows is_converted lp),
      (''lost'', select_rows is_lost lp),
      (''assigned_to_human_agent'', select_rows is_assigned lp),
      (''follow_up'', select_rows is_follow_up lp),
      (''lead_summary'', lead_summary (add_flags lp))]"

section \<open>Per-bot metrics\<close>

text \<open>
  A metric row is a Python dictionary: the key \<open>'Metric'\<close> with the row's label, then
  one key per bot. A dictionary keeps its keys in the order they were first stored, and
  storing at a key it has replaces the value where it is.
\<close>

datatype val = Label string | Count nat | Float rat

type_synonym dict = "(cell \<times> val) list"

record metric_rows =
  unique_leads_row :: dict
  total_attempts_row :: dict
  avg_attempts_row :: dict
  connected_row :: dict
  connectivity_perc_row :: dict
  not_connected_row :: dict
  follow_up_row :: dict
  assigned_agent_row :: dict
  lost_row :: dict
  converted_row :: dict

text \<open>Lines 29 to 38.\<close>

definition initial_rows :: metric_rows where
  "initial_rows =
     \<lparr>unique_leads_row = [(Str ''Metric'', Label ''Unique leads'')],
      total_attempts_row = [(Str ''Metric'', Label ''Total Attempts'')],
      avg_attempts_row = [(Str ''Metric'', Label ''Avg Attempts'')],
      connected_row = [(Str ''Metric'', Label ''Connected'')],
      connectivity_perc_row = [(Str ''Metric'', Label ''Connectivity % :'')],
      not_connected_row = [(Str ''Metric'', Label ''Not Connected'')],
      follow_up_row = [(Str ''Metric'', Label ''Follow Up'')],
      assigned_agent_row = [(Str ''Metric'', Label ''Assigned to human agent'')],
      lost_row = [(Str ''Metric'', Label ''Lost'')],
      converted_row = [(Str ''Metric'', Label ''Converted'')]\<rparr>"

text \<open>Lines 67 to 80: what the loop computes for one bot.\<close>

definition bot_df_all :: "frame \<Rightarrow> cell \<Rightarrow> frame" where
  "bot_df_all df bot_name = select_rows (\<lambda>r. r ''bot'' = bot_name) df"

definition total_attempts :: "frame \<Rightarrow> cell \<Rightarrow> nat" where
  "total_attempts df bot_name = length (rows (bot_df_all df bot_name))"

definition unique_leads :: "frame \<Rightarrow> cell \<Rightarrow> nat" where
  "unique_leads df bot_name = nunique (column ''mobile_number'' (bot_df_all df bot_name))"

definition avg_attempts :: "pandas \<Rightarrow> frame \<Rightarrow> cell \<Rightarrow> rat" where
  "avg_attempts P df bot_name =
     (if unique_leads df bot_name > 0
      then round2 P (of_nat (total_attempts df bot_name) / of_nat (unique_leads df bot_name))
      else 0)"

definition bot_latest :: "frame \<Rightarrow> cell \<Rightarrow> frame" where
  "bot_latest lp bot_name = select_rows (\<lambda>r. r ''bot'' = bot_name) lp"

definition count_leads :: "(row \<Rightarrow> bool) \<Rightarrow> frame \<Rightarrow> cell \<Rightarrow> nat" where
  "count_leads p lp bot_name =
     nunique (column ''mobile_number'' (select_rows p (bot_latest lp bot_name)))"

definition connected_count :: "frame \<Rightarrow> cell \<Rightarrow> nat" where
  "connected_count lp bot_name = count_leads is_connected lp bot_name"

definition not_connected_count :: "frame \<Rightarrow> cell \<Rightarrow> nat" where
  "not_connected_count lp bot_name = count_leads is_not_connected lp bot_name"

definition connectivity_perc :: "pandas \<Rightarrow> frame \<Rightarrow> frame \<Rightarrow> cell \<Rightarrow> rat" where
  "connectivity_perc P df lp bot_name =
     (if unique_leads df bot_name > 0
      then round2 P (of_nat (connected_count lp bot_name) / of_nat (unique_leads df bot_name))
      else 0)"

definition follow_up_count :: "frame \<Rightarrow> cell \<Rightarrow> nat" where
  "follow_up_count lp bot_name = count_leads is_follow_up lp bot_name"

definition assigned_to_agent :: "frame \<Rightarrow> cell \<Rightarrow> nat" where
  "assigned_to_agent lp bot_name = count_leads is_assigned lp bot_name"

definition lost :: "frame \<Rightarrow> cell \<Rightarrow> nat" where
  "lost lp bot_name = count_leads is_lost lp bot_name"

definition converted :: "frame \<Rightarrow> cell \<Rightarrow> nat" where
  "converted lp bot_name = count_leads is_converted lp bot_name"

text \<open>Lines 82 to 91: \<open>row[bot_name] = value\<close> on each of the ten dictionaries.\<close>

definition store_bot :: "pandas \<Rightarrow> frame \<Rightarrow> frame \<Rightarrow> cell \<Rightarrow> metric_rows \<Rightarrow> metric_rows" where
  "store_bot P df lp bot_name m =
     \<lparr>unique_leads_row = AList.update bot_name (Count (unique_leads df bot_name)) (unique_leads_row m),
      total_attempts_row = AList.update bot_name (Count (total_attempts df bot_name)) (total_attempts_row m),
      avg_attempts_row = AList.update bot_name (Float (avg_attempts P df bot_name)) (avg_attempts_row m),
      connected_row = AList.update bot_name (Count (connected_count lp bot_name)) (connected_row m),
      connectivity_perc_row =
        AList.update bot_name (Float (connectivity_perc P df lp bot_name)) (connectivity_perc_row m),
      not_connected_row = AList.update bot_name (Count (not_connected_count lp bot_name)) (not_connected_row m),
      follow_up_row = AList.update bot_name (Count (follow_up_count lp bot_name)) (follow_up_row m),
      assigned_agent_row = AList.update bot_name (Count (assigned_to_agent lp bot_name)) (assigned_agent_row m),
      lost_row = AList.update bot_name (Count (lost lp bot_name)) (lost_row m),
      converted_row = AList.update bot_name (Count (converted lp bot_name)) (converted_row m)\<rparr>"

text \<open>Line 66: \<open>for bot_name in all_bots\<close>\<close>

fun bot_loop :: "pandas \<Rightarrow> frame \<Rightarrow> frame \<Rightarrow> cell list \<Rightarrow> metric_rows \<Rightarrow> metric_rows" where
  "bot_loop P df lp [] m = m"
| "bot_loop P df lp (bot_name # bots) m = bot_loop P df lp bots (store_bot P df lp bot_name m)"

text \<open>Lines 93 to 104.\<close>

definition report_data :: "metric_rows \<Rightarrow> dict list" where
  "report_data m =
     [unique_leads_row m, total_attempts_row m, avg_attempts_row m, connected_row m,
      connectivity_perc_row m, not_connected_row m, follow_up_row m, assigned_agent_row m,
      lost_row m, converted_row m]"

section \<open>The summary\<close>

text \<open>
  \<open>pd.DataFrame(report_data)\<close> on a list of dictionaries: one row per dictionary, the
  columns are the keys in the order of their first appearance, and a key a dictionary
  lacks gives a missing value. \<open>set_index('Metric')\<close> makes that column the index of the
  rows and takes it out of the columns.
\<close>

record summary =
  index :: "val option list"
  bot_columns :: "cell list"
  cells :: "val option list list"

definition dict_columns :: "dict list \<Rightarrow> cell list" where
  "dict_columns ds = unique (concat (map (map fst) ds))"

definition set_index_metric :: "dict list \<Rightarrow> summary" where
  "set_index_metric ds =
     (let cs = filter (\<lambda>c. c \<noteq> Str ''Metric'') (dict_columns ds)
      in \<lparr>index = map (\<lambda>d. map_of d (Str ''Metric'')) ds,
          bot_columns = cs,
          cells = map (\<lambda>d. map (map_of d) cs) ds\<rparr>)"

definition report_df :: "pandas \<Rightarrow> frame \<Rightarrow> frame \<Rightarrow> cell list \<Rightarrow> summary" where
  "report_df P df lp bots = set_index_metric (report_data (bot_loop P df lp bots initial_rows))"

section \<open>The whole function\<close>

datatype outcome = Failed string | Report summary "(string \<times> frame) list"

text \<open>
  A Python variable holds the address of an object, and the store is the list, by
  address, of the frames that the caller and the variable \<open>df\<close> can reach.
  \<open>df[c] = ...\<close> changes the frame at the address that \<open>df\<close> holds, for every holder
  of that address; \<open>df.dropna(...)\<close> makes a new frame, and \<open>df = ...\<close> binds the
  variable to the address of that one. The tables the function builds from line 23 on
  are new objects that nothing else holds before the function returns them, and are
  values here.
\<close>

type_synonym addr = nat

type_synonym store = "frame list"

definition new_frame :: "frame \<Rightarrow> store \<Rightarrow> addr \<times> store" where
  "new_frame f s = (length s, s @ [f])"

text \<open>
  The call \<open>calculate_report(df)\<close> in the store \<open>s\<close>: the store after the call, and what
  the call raised or returned. Lines 7 and 14 store into the frame that was passed; line
  15 binds \<open>df\<close> to the new frame, and lines 17 to 21 store into that one.
\<close>

definition calculate_report_at :: "pandas \<Rightarrow> addr \<Rightarrow> store \<Rightarrow> store \<times> (exn + outcome)" where
  "calculate_report_at P df s =
     (case normalize_outcome (s ! df) of
        Inl e \<Rightarrow> (s, Inl e)
      | Inr with_outcome \<Rightarrow>
          let s1 = s[df := with_outcome]
          in if \<not> list_all (\<lambda>col. col \<in> set (columns (s1 ! df))) required_cols
             then (s1, Inr (Failed (error_message (missing_cols (s1 ! df)))))
             else
               let s2 = s1[df := parse_dates P (s1 ! df)];
                   (df', s3) = new_frame (dropna_date (s2 ! df)) s2;
                   s4 = s3[df' := coerce_fields P (s3 ! df')];
                   work = s4 ! df'
               in (s4,
                   case all_bots work of
                     Inl e \<Rightarrow> Inl e
                   | Inr bots \<Rightarrow>
                       let lp = latest_per_lead P work
                       in Inr (Report (report_df P work (add_flags lp) bots) (sheets_by_category lp))))"

text \<open>
  The call on a frame that is the only one in the store: the caller's frame after the
  call, and what the call raised or returned.
\<close>

definition calculate_report :: "pandas \<Rightarrow> frame \<Rightarrow> frame \<times> (exn + outcome)" where
  "calculate_report P df = (case calculate_report_at P 0 [df] of (s, r) \<Rightarrow> (s ! 0, r))"

text \<open>The working frame of lines 14 to 21, for a frame that line 7 accepts.\<close>

definition normalized :: "pandas \<Rightarrow> frame \<Rightarrow> frame" where
  "normalized P df =
     coerce_fields P (dropna_date (parse_dates P
       (assign ''outcome'' (\<lambda>r. str_strip_lower (r ''outcome'')) df)))"

section \<open>An instance of the library\<close>

text \<open>
  For evaluating the function on concrete frames: dates are given as numbers or
  timestamps and anything else does not parse, \<open>str\<close> of a cell that is not a text is
  left empty, the sort is the stable insertion sort, and rounding is to the nearest
  hundredth.
\<close>

definition simple_pandas :: pandas where
  "simple_pandas =
     \<lparr>to_datetime = (\<lambda>col c. case c of Ts t \<Rightarrow> Some t | Num n \<Rightarrow> Some n | _ \<Rightarrow> None),
      to_numeric = (\<lambda>c. case c of Num n \<Rightarrow> Some n | _ \<Rightarrow> None),
      str_of = (\<lambda>c. []),
      sort_values = sort_key,
      round2 = (\<lambda>q. of_int (round (q * 100)) / 100)\<rparr>"

text \<open>A row given by its six required cells, and the frame of such rows.\<close>

definition attempt :: "cell \<Rightarrow> cell \<Rightarrow> cell \<Rightarrow> cell \<Rightarrow> cell \<Rightarrow> cell \<Rightarrow> row" where
  "attempt b m out con d url =
     (\<lambda>c. if c = ''bot'' then b
          else if c = ''mobile_number'' then m
          else if c = ''outcome'' then out
          else if c = ''contacted'' then con
          else if c = ''date'' then d
          else if c = ''recording_url'' then url
          else NA)"

definition call_log :: "row list \<Rightarrow> frame" where
  "call_log rs = \<lparr>columns = required_cols, rows = rs\<rparr>"

text \<open>What is required of the sort: it permutes the rows and orders them by the key.\<close>

definition sorts :: "pandas \<Rightarrow> bool" where
  "sorts P = (\<forall>key xs. mset (sort_values P key xs) = mset xs \<and> sorted (map key (sort_values P key xs)))"

section \<open>Example call logs\<close>

text \<open>
  Two attempts on one lead of bot \<open>A\<close>: the first with the outcome \<open>" Converted "\<close> and
  no recording, the later one lost, with a recording.
\<close>

definition scenario :: frame where
  "scenario =
     call_log
       [attempt (Str ''A'') (Str ''111'') (Str '' Converted '') (Num 1) (Num 1) (Str []),
        attempt (Str ''A'') (Str ''111'') (Str ''lost'') (Num 1) (Num 2) (Str ''http://x'')]"

definition scenario_latest :: frame where
  "scenario_latest = add_flags (latest_per_lead simple_pandas (normalized simple_pandas scenario))"

text \<open>The later attempt on the lead has no outcome.\<close>

definition stale_outcome_log :: frame where
  "stale_outcome_log =
     call_log
       [attempt (Str ''A'') (Str ''111'') (Str ''lost'') (Num 1) (Num 1) (Str []),
        attempt (Str ''A'') (Str ''111'') NA (Num 1) (Num 2) (Str ''http://x'')]"

text \<open>One attempt with no bot, a \<open>contacted\<close> that is no number and no recording.\<close>

definition unnamed_bot_log :: frame where
  "unnamed_bot_log = call_log [attempt NA (Str ''111'') (Str ''lost'') (Str ''abc'') (Num 1) NA]"

text \<open>One attempt whose bot is the empty text.\<close>

definition empty_bot_log :: frame where
  "empty_bot_log = call_log [attempt (Str []) (Str ''111'') (Str ''lost'') (Num 1) (Num 1) (Str [])]"

text \<open>One attempt on a lead of bot \<open>A\<close>, and one attempt of bot \<open>A\<close> with no mobile number.\<close>

definition no_number_log :: frame where
  "no_number_log =
     call_log
       [attempt (Str ''A'') (Str ''111'') (Str ''lost'') (Num 1) (Num 1) (Str ''http://x''),
        attempt (Str ''A'') NA (Str ''converted'') (Num 1) (Num 2) (Str ''http://y'')]"

text \<open>One attempt with no mobile number, and nothing else.\<close>

definition only_no_number_log :: frame where
  "only_no_number_log =
     call_log [attempt (Str ''B'') NA (Str ''converted'') (Num 1) (Num 2) (Str ''http://y'')]"

text \<open>One attempt of a bot whose name is \<open>Metric\<close>.\<close>

definition metric_bot_log :: frame where
  "metric_bot_log =
     call_log [attempt (Str ''Metric'') (Str ''111'') (Str ''lost'') (Num 1) (Num 2) (Str ''http://x'')]"



text \<open>An outcome with a no-break space at its end and a capital letter outside ASCII.\<close>

definition latin_outcome_log :: frame where
  "latin_outcome_log =
     call_log
       [attempt (Str ''A'') (Str ''111'') (Str [CHR ''L'', CHR ''o'', CHR ''s'', CHR ''t'', CHR 0xA0])
          (Num 1) (Num 1) (Str []),
        attempt (Str ''A'') (Str ''222'') (Str [CHR 0xC9, CHR ''T'', CHR 0xC9]) (Num 1) (Num 2) (Str [])]"

section \<open>Frames: basic facts\<close>

lemma rows_assign: "rows (assign c g df) = map (\<lambda>r. r(c := g r)) (rows df)"
  by (simp add: assign_def)

lemma columns_assign_mem: "c \<in> set (columns df) \<Longrightarrow> columns (assign c g df) = columns df"
  by (simp add: assign_def)

lemma rows_select_rows: "rows (select_rows p df) = filter p (rows df)"
  by (simp add: select_rows_def)

lemma columns_select_rows: "columns (select_rows p df) = columns df"
  by (simp add: select_rows_def)

lemma column_assign_other: "c \<noteq> c' \<Longrightarrow> column c (assign c' g df) = column c df"
  by (simp add: column_def rows_assign)


section \<open>The column check\<close>

lemma missing_cols_assign_outcome:
  "''outcome'' \<in> set (columns df) \<Longrightarrow> missing_cols (assign ''outcome'' g df) = missing_cols df"
  by (simp add: missing_cols_def columns_assign_mem)

lemma all_required_iff:
  "list_all (\<lambda>col. col \<in> set (columns df)) required_cols = (missing_cols df = [])"
  by (simp add: missing_cols_def required_cols_def)

lemma missing_cols_empty_iff: "(missing_cols df = []) = (set required_cols \<subseteq> set (columns df))"
  by (auto simp: missing_cols_def filter_empty_conv)

lemma outcome_required: "missing_cols df = [] \<Longrightarrow> ''outcome'' \<in> set (columns df)"
  by (auto simp: missing_cols_empty_iff required_cols_def)

text \<open>Line 7 on a frame whose \<open>outcome\<close> column the accessor takes.\<close>

lemma normalize_outcome_accepts:
  assumes "''outcome'' \<in> set (columns df)" and "infer_dtype (column ''outcome'' df) \<in> set allowed_types"
  shows "normalize_outcome df = Inr (assign ''outcome'' (\<lambda>r. str_strip_lower (r ''outcome'')) df)"
  using assms by (simp add: normalize_outcome_def)

text \<open>The four ways through the function, up to the check.\<close>

lemma calculate_report_at_no_outcome:
  "''outcome'' \<notin> set (columns (s ! a)) \<Longrightarrow> calculate_report_at P a s = (s, Inl (KeyError ''outcome''))"
  by (simp add: calculate_report_at_def normalize_outcome_def)

lemma calculate_report_at_refused:
  assumes "''outcome'' \<in> set (columns (s ! a))"
    and "infer_dtype (column ''outcome'' (s ! a)) \<notin> set allowed_types"
  shows "calculate_report_at P a s = (s, Inl AttributeError)"
  using assms by (simp add: calculate_report_at_def normalize_outcome_def)


lemma calculate_report_at_ok:
  assumes "a < length s" and "infer_dtype (column ''outcome'' (s ! a)) \<in> set allowed_types"
    and "missing_cols (s ! a) = []"
  shows "calculate_report_at P a s =
           (s[a := parse_dates P (assign ''outcome'' (\<lambda>r. str_strip_lower (r ''outcome'')) (s ! a))]
              @ [normalized P (s ! a)],
            case all_bots (normalized P (s ! a)) of
              Inl e \<Rightarrow> Inl e
            | Inr bots \<Rightarrow>
                Inr (Report
                       (report_df P (normalized P (s ! a))
                          (add_flags (latest_per_lead P (normalized P (s ! a)))) bots)
                       (sheets_by_category (latest_per_lead P (normalized P (s ! a))))))"
proof -
  have o: "''outcome'' \<in> set (columns (s ! a))"
    using assms(3) by (rule outcome_required)
  show ?thesis
    using assms o
    by (simp add: calculate_report_at_def normalize_outcome_accepts all_required_iff
        missing_cols_assign_outcome new_frame_def Let_def normalized_def list_update_append
        nth_append split: sum.split)
qed

text \<open>The same for the call on a frame that is alone in the store.\<close>

lemma calculate_report_no_outcome:
  "''outcome'' \<notin> set (columns df) \<Longrightarrow> calculate_report P df = (df, Inl (KeyError ''outcome''))"
  by (simp add: calculate_report_def calculate_report_at_no_outcome)

lemma calculate_report_refused:
  assumes "''outcome'' \<in> set (columns df)" and "infer_dtype (column ''outcome'' df) \<notin> set allowed_types"
  shows "calculate_report P df = (df, Inl AttributeError)"
  using assms by (simp add: calculate_report_def calculate_report_at_refused)

lemma calculate_report_snd_ok:
  assumes "infer_dtype (column ''outcome'' df) \<in> set allowed_types" and "missing_cols df = []"
  shows "snd (calculate_report P df) =
           (case all_bots (normalized P df) of
              Inl e \<Rightarrow> Inl e
            | Inr bots \<Rightarrow>
                Inr (Report
                       (report_df P (normalized P df)
                          (add_flags (latest_per_lead P (normalized P df))) bots)
                       (sheets_by_category (latest_per_lead P (normalized P df)))))"
proof -
  have n: "[df] ! 0 = df"
    by simp
  have "snd (calculate_report_at P 0 [df]) =
           (case all_bots (normalized P df) of
              Inl e \<Rightarrow> Inl e
            | Inr bots \<Rightarrow>
                Inr (Report
                       (report_df P (normalized P df)
                          (add_flags (latest_per_lead P (normalized P df))) bots)
                       (sheets_by_category (latest_per_lead P (normalized P df)))))"
    using calculate_report_at_ok [of 0 "[df]" P, unfolded n] assms by simp
  then show ?thesis
    by (simp add: calculate_report_def case_prod_beta)
qed

text \<open>
  C1. A frame that lacks required columns is to fail with the message that names all of
  them, before anything is normalized. The function normalizes \<open>outcome\<close> on its first
  line, before the check: on a frame with no \<open>outcome\<close> column that line raises
  \<open>KeyError\<close>, and the message that would have named \<open>outcome\<close> is never built.
\<close>

theorem missing_outcome_raises_key_error:
  "calculate_report P
     \<lparr>columns = [''bot'', ''mobile_number'', ''contacted'', ''date'', ''recording_url''], rows = rs\<rparr>
   = (\<lparr>columns = [''bot'', ''mobile_number'', ''contacted'', ''date'', ''recording_url''], rows = rs\<rparr>,
      Inl (KeyError ''outcome''))"
  by (rule calculate_report_no_outcome) simp

section \<open>Normalized rows, grouping and evaluation\<close>

lemma column_date_assign_outcome: "column ''date'' (assign ''outcome'' g df) = column ''date'' df"
  by (simp add: column_assign_other)

lemma parsed_not_NA: "((case x of None \<Rightarrow> NA | Some t \<Rightarrow> Ts t) \<noteq> NA) = (x \<noteq> None)"
  by (cases x) simp_all

lemma rows_normalized:
  "rows (normalized P df) =
     map (\<lambda>r. r(''outcome'' := str_strip_lower (r ''outcome''),
                ''date'' := (case to_datetime P (column ''date'' df) (r ''date'') of
                               None \<Rightarrow> NA | Some t \<Rightarrow> Ts t),
                ''contacted'' := coerce_contacted P (r ''contacted''),
                ''bot'' := fill_bot (r ''bot''),
                ''recording_url'' := clean_url P (r ''recording_url'')))
       (filter (\<lambda>r. to_datetime P (column ''date'' df) (r ''date'') \<noteq> None) (rows df))"
  by (simp add: normalized_def coerce_fields_def dropna_date_def parse_dates_def rows_assign
      rows_select_rows column_date_assign_outcome filter_map comp_def parsed_not_NA)

lemma fill_bot_not_NA: "fill_bot c \<noteq> NA"
  by (simp add: fill_bot_def)

lemma clean_url_Str: "\<exists>s. clean_url P c = Str s"
  by (cases c) (simp_all add: clean_url_def)

lemma coerce_contacted_Num: "\<exists>n. coerce_contacted P c = Num n"
  by (cases "to_numeric P c") (simp_all add: coerce_contacted_def)

lemma normalized_row_cells:
  assumes "r \<in> set (rows (normalized P df))"
  shows "r ''bot'' \<noteq> NA" and "\<exists>t. r ''date'' = Ts t" and "\<exists>s. r ''recording_url'' = Str s"
    and "\<exists>n. r ''contacted'' = Num n"
proof -
  from assms obtain x where x: "to_datetime P (column ''date'' df) (x ''date'') \<noteq> None"
    and r: "r = x(''outcome'' := str_strip_lower (x ''outcome''),
                ''date'' := (case to_datetime P (column ''date'' df) (x ''date'') of
                               None \<Rightarrow> NA | Some t \<Rightarrow> Ts t),
                ''contacted'' := coerce_contacted P (x ''contacted''),
                ''bot'' := fill_bot (x ''bot''),
                ''recording_url'' := clean_url P (x ''recording_url''))"
    by (auto simp: rows_normalized)
  show "r ''bot'' \<noteq> NA" by (simp add: r fill_bot_not_NA)
  show "\<exists>t. r ''date'' = Ts t" using x by (auto simp: r)
  show "\<exists>s. r ''recording_url'' = Str s" by (simp add: r clean_url_Str)
  show "\<exists>n. r ''contacted'' = Num n" by (simp add: r coerce_contacted_Num)
qed

lemma length_rows_normalized:
  "length (rows (normalized P df))
     = length (filter (\<lambda>r. to_datetime P (column ''date'' df) (r ''date'') \<noteq> None) (rows df))"
  by (simp add: rows_normalized)

lemma sorts_set: "sorts P \<Longrightarrow> set (sort_values P key xs) = set xs"
  unfolding sorts_def by (metis mset_eq_setD)

lemma sorts_sorted: "sorts P \<Longrightarrow> sorted (map key (sort_values P key xs))"
  unfolding sorts_def by blast

lemma sorts_simple_pandas: "sorts simple_pandas"
  by (simp add: sorts_def simple_pandas_def)

lemma rows_sort_by_date: "rows (sort_by_date P df) = sort_values P date_key (rows df)"
  by (simp add: sort_by_date_def)

lemma set_group_keys: "set (group_keys rs) = lead_key ` {r \<in> set rs. has_key r}"
  by (auto simp: group_keys_def)

lemma distinct_group_keys: "distinct (group_keys rs)"
  by (simp add: group_keys_def)

lemma rows_groupby_last:
  "rows (groupby_last df) =
     map (\<lambda>k. agg_last (filter (\<lambda>r. lead_key r = k) (filter has_key (rows df))) k)
       (group_keys (rows df))"
  by (simp add: groupby_last_def)

lemma lead_key_agg_last: "lead_key (agg_last grp k) = k"
  by (simp add: lead_key_def agg_last_def)

lemma map_lead_key_groupby_last: "map lead_key (rows (groupby_last df)) = group_keys (rows df)"
  by (simp add: rows_groupby_last comp_def lead_key_agg_last)

lemma length_rows_groupby_last:
  "length (rows (groupby_last df)) = card (lead_key ` {r \<in> set (rows df). has_key r})"
proof -
  have "length (rows (groupby_last df)) = length (group_keys (rows df))"
    by (simp add: rows_groupby_last)
  also have "\<dots> = card (set (group_keys (rows df)))"
    by (simp add: distinct_card distinct_group_keys)
  finally show ?thesis by (simp add: set_group_keys)
qed

lemma length_rows_latest:
  assumes "sorts P"
  shows "length (rows (latest_per_lead P df)) = card (lead_key ` {r \<in> set (rows df). has_key r})"
  by (simp add: latest_per_lead_def length_rows_groupby_last rows_sort_by_date sorts_set [OF assms])


lemma rows_add_flags:
  "rows (add_flags lp) =
     map (\<lambda>r. r(''connected_flag'' := Bool (is_connected r),
                ''not_connected_flag'' := Bool (is_not_connected r),
                ''converted_flag'' := Bool (is_converted r),
                ''lost_flag'' := Bool (is_lost r),
                ''assigned_to_agent_flag'' := Bool (is_assigned r),
                ''follow_up_flag'' := Bool (is_follow_up r)))
       (rows lp)"
  by (simp add: add_flags_def rows_assign comp_def is_connected_def is_not_connected_def
      is_converted_def is_lost_def is_assigned_def is_follow_up_def)

lemma str_strip_lower_evals:
  "str_strip_lower NA = NA"
  "str_strip_lower (Str ''lost'') = Str ''lost''"
  "str_strip_lower (Str ''converted'') = Str ''converted''"
  "str_strip_lower (Str '' Converted '') = Str ''converted''"
  by code_simp+

lemma strip_evals:
  "strip [] = []"
  "strip ''http://x'' = ''http://x''"
  "strip ''http://y'' = ''http://y''"
  by code_simp+

lemmas frame_eval =
  call_log_def attempt_def simple_pandas_def column_def has_key_def lead_key_def date_key_def
  fill_bot_def agg_last_def last_valid_def group_keys_def clean_url_def coerce_contacted_def
  latest_per_lead_def rows_groupby_last rows_sort_by_date rows_normalized
  str_strip_lower_evals strip_evals


section \<open>What the call does to the caller's frame\<close>

lemma accepted_outcome_examples:
  "infer_dtype (column ''outcome'' scenario) \<in> set allowed_types"
  "infer_dtype (column ''outcome'' unnamed_bot_log) \<in> set allowed_types"
  "infer_dtype (column ''outcome'' latin_outcome_log) \<in> set allowed_types"
  "infer_dtype (column ''outcome'' metric_bot_log) \<in> set allowed_types"
  by code_simp+








section \<open>Flags\<close>

lemma add_flags_row:
  assumes "r \<in> set (rows (add_flags lp))"
  obtains r0 where "r0 \<in> set (rows lp)"
    and "r ''recording_url'' = r0 ''recording_url''"
    and "r ''outcome'' = r0 ''outcome''"
    and "r ''connected_flag'' = Bool (is_connected r0)"
    and "r ''not_connected_flag'' = Bool (is_not_connected r0)"
    and "r ''converted_flag'' = Bool (is_converted r0)"
    and "r ''lost_flag'' = Bool (is_lost r0)"
    and "r ''assigned_to_agent_flag'' = Bool (is_assigned r0)"
    and "r ''follow_up_flag'' = Bool (is_follow_up r0)"
  using assms
  by (auto simp: add_flags_def rows_assign is_connected_def is_not_connected_def
      is_converted_def is_lost_def is_assigned_def is_follow_up_def)

text \<open>
  C4. On every row of the latest-state table with its flags: exactly one of
  \<open>connected_flag\<close> and \<open>not_connected_flag\<close> is true, and the first is true exactly
  when the row's recording URL is not the empty text; no two of \<open>converted_flag\<close>,
  \<open>lost_flag\<close> and \<open>assigned_to_agent_flag\<close> are true together; and \<open>follow_up_flag\<close>
  is true exactly when the row's outcome is none of \<open>assign to live agent\<close>,
  \<open>converted\<close> and \<open>lost\<close>.
\<close>

theorem flags_of_latest_state:
  "\<forall>r \<in> set (rows (add_flags (latest_per_lead P (normalized P df)))).
     ((r ''connected_flag'' = Bool True) \<noteq> (r ''not_connected_flag'' = Bool True))
   \<and> ((r ''connected_flag'' = Bool True) = (r ''recording_url'' \<noteq> Str []))
   \<and> \<not> (r ''converted_flag'' = Bool True \<and> r ''lost_flag'' = Bool True)
   \<and> \<not> (r ''converted_flag'' = Bool True \<and> r ''assigned_to_agent_flag'' = Bool True)
   \<and> \<not> (r ''lost_flag'' = Bool True \<and> r ''assigned_to_agent_flag'' = Bool True)
   \<and> ((r ''follow_up_flag'' = Bool True)
        = (r ''outcome'' \<notin> {Str ''assign to live agent'', Str ''converted'', Str ''lost''}))"
proof
  fix r
  assume "r \<in> set (rows (add_flags (latest_per_lead P (normalized P df))))"
  then obtain r0 where
    "r ''recording_url'' = r0 ''recording_url''"
    "r ''outcome'' = r0 ''outcome''"
    "r ''connected_flag'' = Bool (is_connected r0)"
    "r ''not_connected_flag'' = Bool (is_not_connected r0)"
    "r ''converted_flag'' = Bool (is_converted r0)"
    "r ''lost_flag'' = Bool (is_lost r0)"
    "r ''assigned_to_agent_flag'' = Bool (is_assigned r0)"
    "r ''follow_up_flag'' = Bool (is_follow_up r0)"
    by (rule add_flags_row)
  then show "((r ''connected_flag'' = Bool True) \<noteq> (r ''not_connected_flag'' = Bool True))
   \<and> ((r ''connected_flag'' = Bool True) = (r ''recording_url'' \<noteq> Str []))
   \<and> \<not> (r ''converted_flag'' = Bool True \<and> r ''lost_flag'' = Bool True)
   \<and> \<not> (r ''converted_flag'' = Bool True \<and> r ''assigned_to_agent_flag'' = Bool True)
   \<and> \<not> (r ''lost_flag'' = Bool True \<and> r ''assigned_to_agent_flag'' = Bool True)
   \<and> ((r ''follow_up_flag'' = Bool True)
        = (r ''outcome'' \<notin> {Str ''assign to live agent'', Str ''converted'', Str ''lost''}))"
    by (simp add: is_connected_def is_not_connected_def
      is_converted_def is_lost_def is_assigned_def is_follow_up_def follow_up_exclude_def)
qed


theorem flags_of_latest_state_witness:
  "\<exists>r. rows scenario_latest = [r]
     \<and> r ''recording_url'' = Str ''http://x''
     \<and> r ''outcome'' = Str ''lost''
     \<and> r ''connected_flag'' = Bool True
     \<and> r ''not_connected_flag'' \<noteq> Bool True
     \<and> r ''lost_flag'' = Bool True
     \<and> r ''converted_flag'' \<noteq> Bool True
     \<and> r ''assigned_to_agent_flag'' \<noteq> Bool True
     \<and> r ''follow_up_flag'' \<noteq> Bool True"
proof -
  have "map (\<lambda>r. (r ''recording_url'', r ''outcome'', r ''lost_flag'')) (rows scenario_latest)
          = [(Str ''http://x'', Str ''lost'', Bool True)]"
    by (simp add: scenario_latest_def scenario_def rows_add_flags frame_eval is_lost_def)
  then obtain a where a: "rows scenario_latest = [a]"
    and e: "a ''recording_url'' = Str ''http://x''" "a ''outcome'' = Str ''lost''"
      "a ''lost_flag'' = Bool True"
    by (auto simp: map_eq_Cons_conv)
  have mem: "a \<in> set (rows (add_flags (latest_per_lead simple_pandas (normalized simple_pandas scenario))))"
    using a by (simp add: scenario_latest_def)
  have "((a ''connected_flag'' = Bool True) \<noteq> (a ''not_connected_flag'' = Bool True))
   \<and> ((a ''connected_flag'' = Bool True) = (a ''recording_url'' \<noteq> Str []))
   \<and> \<not> (a ''converted_flag'' = Bool True \<and> a ''lost_flag'' = Bool True)
   \<and> \<not> (a ''converted_flag'' = Bool True \<and> a ''assigned_to_agent_flag'' = Bool True)
   \<and> \<not> (a ''lost_flag'' = Bool True \<and> a ''assigned_to_agent_flag'' = Bool True)
   \<and> ((a ''follow_up_flag'' = Bool True)
        = (a ''outcome'' \<notin> {Str ''assign to live agent'', Str ''converted'', Str ''lost''}))"
    by (rule bspec [OF flags_of_latest_state mem])
  then have "a ''connected_flag'' = Bool True" and "a ''not_connected_flag'' \<noteq> Bool True"
    and "a ''converted_flag'' \<noteq> Bool True" and "a ''assigned_to_agent_flag'' \<noteq> Bool True"
    and "a ''follow_up_flag'' \<noteq> Bool True"
    using e by auto
  with a e show ?thesis by blast
qed

section \<open>How many rows\<close>

text \<open>
  C8. The latest-state table has one row for each distinct pair of bot and mobile number
  among the normalized rows whose mobile number is not missing (a row with no mobile
  number is in no group), and the normalized frame has exactly the rows of the input whose
  date parses: no other step removes a row.
\<close>

theorem latest_rows_count:
  assumes "sorts P"
  shows "length (rows (latest_per_lead P (normalized P df)))
           = card (lead_key ` {r \<in> set (rows (normalized P df)). r ''mobile_number'' \<noteq> NA})
         \<and> length (rows (normalized P df))
           = length (filter (\<lambda>r. to_datetime P (column ''date'' df) (r ''date'') \<noteq> None) (rows df))"
proof -
  have "{r \<in> set (rows (normalized P df)). has_key r}
          = {r \<in> set (rows (normalized P df)). r ''mobile_number'' \<noteq> NA}"
    using normalized_row_cells(1) by (auto simp: has_key_def)
  then show ?thesis
    by (simp add: length_rows_latest [OF assms] length_rows_normalized)
qed

theorem latest_rows_count_witness:
  "sorts simple_pandas
   \<and> card (lead_key ` {r \<in> set (rows (normalized simple_pandas no_number_log)).
                         r ''mobile_number'' \<noteq> NA}) = 1
   \<and> length (rows (normalized simple_pandas no_number_log)) = 2"
proof -
  have l: "length (rows (latest_per_lead simple_pandas (normalized simple_pandas no_number_log))) = 1"
    by (simp add: no_number_log_def frame_eval)
  have f: "length (filter (\<lambda>r. to_datetime simple_pandas (column ''date'' no_number_log) (r ''date'') \<noteq> None)
                    (rows no_number_log)) = 2"
    by (simp add: no_number_log_def frame_eval)
  from latest_rows_count [OF sorts_simple_pandas, of no_number_log] l f
  show ?thesis by (simp add: sorts_simple_pandas)
qed

text \<open>
  As the claim counts them, a log whose one attempt has no mobile number has one pair of
  bot and mobile number, and its latest-state table has no row.
\<close>

theorem latest_rows_fewer_than_pairs:
  "length (rows (latest_per_lead simple_pandas (normalized simple_pandas only_no_number_log))) = 0
   \<and> card (lead_key ` set (rows (normalized simple_pandas only_no_number_log))) = 1"
  by (simp add: only_no_number_log_def frame_eval)

section \<open>Bot names\<close>

lemma set_unique: "set (unique cs) = set cs"
  by (simp add: unique_def)

lemma distinct_unique: "distinct (unique cs)"
  by (simp add: unique_def)

lemma all_bots_Inr:
  assumes "all_bots df = Inr bots"
  shows "bots = sort_key cell_key (unique (column ''bot'' df))"
    and "set bots = set (column ''bot'' df)" and "distinct bots"
proof -
  show b: "bots = sort_key cell_key (unique (column ''bot'' df))"
    using assms by (simp add: all_bots_def py_sorted_def split: if_splits)
  show "set bots = set (column ''bot'' df)"
    by (simp add: b set_unique)
  show "distinct bots"
    by (simp add: b distinct_unique)
qed

lemma column_bot_normalized:
  "column ''bot'' (normalized P df)
     = map (\<lambda>r. if r ''bot'' = NA then Str ''Blank_Bot_Name'' else r ''bot'')
         (filter (\<lambda>r. to_datetime P (column ''date'' df) (r ''date'') \<noteq> None) (rows df))"
  by (simp add: column_def rows_normalized fill_bot_def)

text \<open>
  C3. Normalization replaces a missing bot by \<open>Blank_Bot_Name\<close> and leaves every other
  bot value as it is, the empty text too. Where a kept row had no bot, the label is among
  the bots the summary is built for, and its bucket counts at least one attempt.
\<close>

theorem missing_bot_gets_sentinel:
  "column ''bot'' (normalized P df)
     = map (\<lambda>r. if r ''bot'' = NA then Str ''Blank_Bot_Name'' else r ''bot'')
         (filter (\<lambda>r. to_datetime P (column ''date'' df) (r ''date'') \<noteq> None) (rows df))
   \<and> (\<forall>bots r. all_bots (normalized P df) = Inr bots \<and> r \<in> set (rows df)
          \<and> to_datetime P (column ''date'' df) (r ''date'') \<noteq> None \<and> r ''bot'' = NA
        \<longrightarrow> Str ''Blank_Bot_Name'' \<in> set bots
            \<and> 0 < total_attempts (normalized P df) (Str ''Blank_Bot_Name''))"
proof (intro conjI allI impI)
  show "column ''bot'' (normalized P df)
     = map (\<lambda>r. if r ''bot'' = NA then Str ''Blank_Bot_Name'' else r ''bot'')
         (filter (\<lambda>r. to_datetime P (column ''date'' df) (r ''date'') \<noteq> None) (rows df))"
    by (rule column_bot_normalized)
next
  fix bots r
  assume h: "all_bots (normalized P df) = Inr bots \<and> r \<in> set (rows df)
          \<and> to_datetime P (column ''date'' df) (r ''date'') \<noteq> None \<and> r ''bot'' = NA"
  then have m: "Str ''Blank_Bot_Name'' \<in> set (column ''bot'' (normalized P df))"
    unfolding column_bot_normalized by force
  from h have ab: "all_bots (normalized P df) = Inr bots"
    by simp
  have "set bots = set (column ''bot'' (normalized P df))"
    by (rule all_bots_Inr(2) [OF ab])
  with m show "Str ''Blank_Bot_Name'' \<in> set bots"
    by simp
  from m have "filter (\<lambda>r. r ''bot'' = Str ''Blank_Bot_Name'') (rows (normalized P df)) \<noteq> []"
    by (auto simp: column_def filter_empty_conv)
  then show "0 < total_attempts (normalized P df) (Str ''Blank_Bot_Name'')"
    by (simp add: total_attempts_def bot_df_all_def rows_select_rows)
qed

theorem missing_bot_gets_sentinel_witness:
  "column ''bot'' (normalized simple_pandas unnamed_bot_log) = [Str ''Blank_Bot_Name'']
   \<and> all_bots (normalized simple_pandas unnamed_bot_log) = Inr [Str ''Blank_Bot_Name'']
   \<and> 0 < total_attempts (normalized simple_pandas unnamed_bot_log) (Str ''Blank_Bot_Name'')"
proof -
  have c: "column ''bot'' (normalized simple_pandas unnamed_bot_log) = [Str ''Blank_Bot_Name'']"
    using missing_bot_gets_sentinel [of simple_pandas unnamed_bot_log]
    by (simp add: unnamed_bot_log_def call_log_def attempt_def simple_pandas_def column_def)
  then have b: "all_bots (normalized simple_pandas unnamed_bot_log) = Inr [Str ''Blank_Bot_Name'']"
    by (simp add: all_bots_def py_sorted_def unique_def same_kind_def)
  have r: "attempt NA (Str ''111'') (Str ''lost'') (Str ''abc'') (Num 1) NA \<in> set (rows unnamed_bot_log)"
    "to_datetime simple_pandas (column ''date'' unnamed_bot_log)
       (attempt NA (Str ''111'') (Str ''lost'') (Str ''abc'') (Num 1) NA ''date'') \<noteq> None"
    "attempt NA (Str ''111'') (Str ''lost'') (Str ''abc'') (Num 1) NA ''bot'' = NA"
    by (simp_all add: unnamed_bot_log_def call_log_def attempt_def simple_pandas_def)
  from missing_bot_gets_sentinel [of simple_pandas unnamed_bot_log] b r
  have "0 < total_attempts (normalized simple_pandas unnamed_bot_log) (Str ''Blank_Bot_Name'')"
    by blast
  with c b show ?thesis by simp
qed

text \<open>
  The claim has an empty bot replaced as well: the bot that is the empty text stays the
  empty text.
\<close>

theorem empty_bot_is_kept: "column ''bot'' (normalized simple_pandas empty_bot_log) = [Str []]"
  by (simp add: empty_bot_log_def frame_eval)

section \<open>Counting leads\<close>

lemma nunique_card: "nunique cs = card (set cs - {NA})"
proof -
  have "set (filter (\<lambda>c. c \<noteq> NA) cs) = set cs - {NA}"
    by auto
  then show ?thesis
    by (simp add: nunique_def length_remdups_card_conv del: set_filter)
qed

lemma nunique_distinct: "distinct cs \<Longrightarrow> NA \<notin> set cs \<Longrightarrow> nunique cs = length cs"
  by (simp add: nunique_card distinct_card)

lemma has_key_lead_key: "has_key r = (fst (lead_key r) \<noteq> NA \<and> snd (lead_key r) \<noteq> NA)"
  by (simp add: has_key_def lead_key_def)

lemma group_keys_not_NA: "k \<in> set (group_keys rs) \<Longrightarrow> fst k \<noteq> NA \<and> snd k \<noteq> NA"
  by (auto simp: set_group_keys has_key_lead_key)

text \<open>The rows of one bot in the grouped table: one for each key of that bot.\<close>

lemma bot_rows_groupby_last:
  "filter (\<lambda>r. r ''bot'' = b) (rows (groupby_last df))
     = map (\<lambda>k. agg_last (filter (\<lambda>r. lead_key r = k) (filter has_key (rows df))) k)
         (filter (\<lambda>k. fst k = b) (group_keys (rows df)))"
  by (simp add: rows_groupby_last filter_map comp_def agg_last_def)

lemma mobile_bot_rows_groupby_last:
  "map (\<lambda>r. r ''mobile_number'') (filter (\<lambda>r. r ''bot'' = b) (rows (groupby_last df)))
     = map snd (filter (\<lambda>k. fst k = b) (group_keys (rows df)))"
  by (simp add: bot_rows_groupby_last comp_def agg_last_def)

lemma distinct_mobile_bot_rows:
  "distinct (map (\<lambda>r. r ''mobile_number'') (filter (\<lambda>r. r ''bot'' = b) (rows (groupby_last df))))"
proof -
  have "inj_on snd (set (filter (\<lambda>k. fst k = b) (group_keys (rows df))))"
    by (auto simp: inj_on_def)
  then show ?thesis
    by (simp add: mobile_bot_rows_groupby_last distinct_map distinct_group_keys)
qed

lemma mobile_not_NA_groupby_last:
  "r \<in> set (rows (groupby_last df)) \<Longrightarrow> r ''mobile_number'' \<noteq> NA"
  by (auto simp: rows_groupby_last agg_last_def dest: group_keys_not_NA)

text \<open>A count of leads of one bot in the grouped table is a count of its rows.\<close>

lemma count_leads_groupby_last:
  "count_leads p (groupby_last df) b
     = length (filter p (filter (\<lambda>r. r ''bot'' = b) (rows (groupby_last df))))"
proof -
  let ?xs = "filter (\<lambda>r. r ''bot'' = b) (rows (groupby_last df))"
  have d: "distinct (map (\<lambda>r. r ''mobile_number'') (filter p ?xs))"
    using distinct_mobile_bot_rows [of b df] by (rule distinct_map_filter)
  have n: "NA \<notin> set (map (\<lambda>r. r ''mobile_number'') (filter p ?xs))"
    by (auto dest: mobile_not_NA_groupby_last)
  show ?thesis
    using nunique_distinct [OF d n]
    by (simp add: count_leads_def bot_latest_def column_def rows_select_rows)
qed

lemma length_bot_rows_groupby_last:
  assumes "b \<noteq> NA"
  shows "length (filter (\<lambda>r. r ''bot'' = b) (rows (groupby_last df))) = unique_leads df b"
proof -
  let ?ks = "filter (\<lambda>k. fst k = b) (group_keys (rows df))"
  have "length (filter (\<lambda>r. r ''bot'' = b) (rows (groupby_last df))) = length (map snd ?ks)"
    by (simp add: bot_rows_groupby_last)
  also have "\<dots> = card (set (map snd ?ks))"
    using distinct_mobile_bot_rows [of b df]
    by (simp add: mobile_bot_rows_groupby_last distinct_card del: set_map)
  also have "set (map snd ?ks) = set (map (\<lambda>r. r ''mobile_number'') (filter (\<lambda>r. r ''bot'' = b) (rows df))) - {NA}"
    using assms by (force simp: set_group_keys has_key_def lead_key_def)
  finally show ?thesis
    by (simp add: unique_leads_def nunique_card bot_df_all_def column_def rows_select_rows
        del: set_map set_filter)
qed

text \<open>The flag columns do not change what the counts read.\<close>

lemma count_leads_add_flags:
  assumes "\<And>r a b c d e f. p (r(''connected_flag'' := a, ''not_connected_flag'' := b,
              ''converted_flag'' := c, ''lost_flag'' := d, ''assigned_to_agent_flag'' := e,
              ''follow_up_flag'' := f)) = p r"
  shows "count_leads p (add_flags lp) bot_name = count_leads p lp bot_name"
  by (simp add: count_leads_def bot_latest_def column_def rows_select_rows rows_add_flags
      filter_map comp_def assms)

lemma unique_leads_cong:
  "set (rows df') = set (rows df) \<Longrightarrow> unique_leads df' b = unique_leads df b"
  by (simp add: unique_leads_def nunique_card bot_df_all_def column_def rows_select_rows)

lemma split_connected:
  "connected_count (add_flags (groupby_last df)) b + not_connected_count (add_flags (groupby_last df)) b
     = length (filter (\<lambda>r. r ''bot'' = b) (rows (groupby_last df)))"
proof -
  let ?xs = "filter (\<lambda>r. r ''bot'' = b) (rows (groupby_last df))"
  have c: "connected_count (add_flags (groupby_last df)) b = length (filter is_connected ?xs)"
    unfolding connected_count_def
    by (subst count_leads_add_flags) (simp_all add: is_connected_def count_leads_groupby_last)
  have n: "not_connected_count (add_flags (groupby_last df)) b
             = length (filter (\<lambda>r. \<not> is_connected r) ?xs)"
    unfolding not_connected_count_def
    by (subst count_leads_add_flags)
      (simp_all add: is_not_connected_def is_connected_def count_leads_groupby_last)
  show ?thesis
    unfolding c n by (rule sum_length_filter_compl)
qed

lemma counts_add_up:
  assumes "sorts P"
  shows "connected_count (add_flags (latest_per_lead P (normalized P df))) b
           + not_connected_count (add_flags (latest_per_lead P (normalized P df))) b
         = unique_leads (normalized P df) b"
proof -
  let ?w = "normalized P df"
  let ?s = "sort_by_date P ?w"
  have s: "set (rows ?s) = set (rows ?w)"
    by (simp add: rows_sort_by_date sorts_set [OF assms])
  have l: "connected_count (add_flags (latest_per_lead P ?w)) b
             + not_connected_count (add_flags (latest_per_lead P ?w)) b
           = length (filter (\<lambda>r. r ''bot'' = b) (rows (groupby_last ?s)))"
    by (simp add: latest_per_lead_def split_connected)
  show ?thesis
  proof (cases "b = NA")
    case False
    then have "length (filter (\<lambda>r. r ''bot'' = b) (rows (groupby_last ?s))) = unique_leads ?s b"
      by (rule length_bot_rows_groupby_last)
    also have "\<dots> = unique_leads ?w b"
      using s by (rule unique_leads_cong)
    finally show ?thesis using l by simp
  next
    case True
    have "filter (\<lambda>k. fst k = NA) (group_keys (rows ?s)) = []"
      by (auto simp: filter_empty_conv dest: group_keys_not_NA)
    then have z: "length (filter (\<lambda>r. r ''bot'' = b) (rows (groupby_last ?s))) = 0"
      by (simp add: True bot_rows_groupby_last)
    have "filter (\<lambda>r. r ''bot'' = NA) (rows ?w) = []"
      using normalized_row_cells(1) [of _ P df] by (auto simp: filter_empty_conv)
    then have "unique_leads ?w b = 0"
      by (simp add: True unique_leads_def nunique_def bot_df_all_def column_def rows_select_rows)
    with l z show ?thesis by simp
  qed
qed


text \<open>
  C5. For every bot, the leads counted as connected and those counted as not connected
  add up to the bot's unique leads, the number of distinct mobile numbers among its
  normalized attempts; whatever order the sort gives to attempts of equal date.
\<close>

theorem connected_plus_not_connected:
  assumes "sorts P"
  shows "connected_count (add_flags (latest_per_lead P (normalized P df))) b
           + not_connected_count (add_flags (latest_per_lead P (normalized P df))) b
         = unique_leads (normalized P df) b"
  using assms by (rule counts_add_up)

theorem connected_plus_not_connected_witness:
  "sorts simple_pandas
   \<and> unique_leads (normalized simple_pandas scenario) (Str ''A'') = 1
   \<and> connected_count scenario_latest (Str ''A'') + not_connected_count scenario_latest (Str ''A'') = 1"
proof -
  have u: "unique_leads (normalized simple_pandas scenario) (Str ''A'') = 1"
    by (simp add: unique_leads_def nunique_def bot_df_all_def rows_select_rows scenario_def frame_eval)
  from connected_plus_not_connected [OF sorts_simple_pandas, of scenario "Str ''A''"] u
  show ?thesis
    by (simp add: sorts_simple_pandas scenario_latest_def)
qed

section \<open>Ratios\<close>

lemma connected_le_unique:
  assumes "sorts P"
  shows "connected_count (add_flags (latest_per_lead P (normalized P df))) b
           \<le> unique_leads (normalized P df) b"
  using counts_add_up [OF assms, of df b] by simp

lemma round2_simple_pandas: "round2 simple_pandas q = of_int (round (q * 100)) / 100"
  by (simp add: simple_pandas_def)

lemma round2_simple_pandas_unit:
  "\<forall>q. 0 \<le> q \<and> q \<le> 1 \<longrightarrow> 0 \<le> round2 simple_pandas q \<and> round2 simple_pandas q \<le> 1"
proof (intro allI impI)
  fix q :: rat
  assume q: "0 \<le> q \<and> q \<le> 1"
  then have a: "(0 :: rat) \<le> q * 100" "q * 100 \<le> (100 :: rat)"
    by simp_all
  have "round (0 :: rat) \<le> round (q * 100)"
    using a(1) by (rule round_mono)
  moreover have "round (q * 100) \<le> round (100 :: rat)"
    using a(2) by (rule round_mono)
  ultimately have "0 \<le> round (q * 100)" and "round (q * 100) \<le> 100"
    by simp_all
  then have "(0 :: rat) \<le> of_int (round (q * 100))" and "(of_int (round (q * 100)) :: rat) \<le> 100"
    by (simp_all add: of_int_le_numeral_iff [where 'a = rat, symmetric] del: of_int_le_numeral_iff)
  then show "0 \<le> round2 simple_pandas q \<and> round2 simple_pandas q \<le> 1"
    by (simp add: round2_simple_pandas)
qed

text \<open>
  C6. For a bot with no unique lead, the average attempts and the connectivity are 0 and
  nothing is divided. For a bot with unique leads, the average attempts are the rounded
  quotient of its attempts by its unique leads, and the connectivity is the rounded
  quotient of its connected leads by its unique leads; that quotient lies between 0 and
  1, and so does the connectivity when rounding keeps numbers between 0 and 1 there.
\<close>

theorem ratio_metrics:
  assumes "sorts P"
  shows "(unique_leads (normalized P df) b = 0 \<longrightarrow>
            avg_attempts P (normalized P df) b = 0
          \<and> connectivity_perc P (normalized P df) (add_flags (latest_per_lead P (normalized P df))) b = 0)
       \<and> (0 < unique_leads (normalized P df) b \<longrightarrow>
            avg_attempts P (normalized P df) b
              = round2 P (of_nat (total_attempts (normalized P df) b)
                          / of_nat (unique_leads (normalized P df) b))
          \<and> connectivity_perc P (normalized P df) (add_flags (latest_per_lead P (normalized P df))) b
              = round2 P (of_nat (connected_count (add_flags (latest_per_lead P (normalized P df))) b)
                          / of_nat (unique_leads (normalized P df) b))
          \<and> (0 :: rat) \<le> of_nat (connected_count (add_flags (latest_per_lead P (normalized P df))) b)
                          / of_nat (unique_leads (normalized P df) b)
          \<and> (of_nat (connected_count (add_flags (latest_per_lead P (normalized P df))) b)
                          / of_nat (unique_leads (normalized P df) b) :: rat) \<le> 1
          \<and> ((\<forall>q. 0 \<le> q \<and> q \<le> 1 \<longrightarrow> 0 \<le> round2 P q \<and> round2 P q \<le> 1) \<longrightarrow>
                0 \<le> connectivity_perc P (normalized P df)
                       (add_flags (latest_per_lead P (normalized P df))) b
              \<and> connectivity_perc P (normalized P df)
                       (add_flags (latest_per_lead P (normalized P df))) b \<le> 1))"
proof -
  let ?u = "unique_leads (normalized P df) b"
  let ?c = "connected_count (add_flags (latest_per_lead P (normalized P df))) b"
  have le: "?c \<le> ?u"
    using assms by (rule connected_le_unique)
  have q: "0 < ?u \<Longrightarrow> (0 :: rat) \<le> of_nat ?c / of_nat ?u \<and> (of_nat ?c / of_nat ?u :: rat) \<le> 1"
    using le by (simp add: divide_le_eq_1)
  show ?thesis
    using q by (auto simp: avg_attempts_def connectivity_perc_def)
qed

theorem ratio_metrics_witness:
  "sorts simple_pandas
   \<and> unique_leads (normalized simple_pandas only_no_number_log) (Str ''B'') = 0
   \<and> avg_attempts simple_pandas (normalized simple_pandas only_no_number_log) (Str ''B'') = 0
   \<and> connectivity_perc simple_pandas (normalized simple_pandas only_no_number_log)
        (add_flags (latest_per_lead simple_pandas (normalized simple_pandas only_no_number_log)))
        (Str ''B'') = 0
   \<and> 0 < unique_leads (normalized simple_pandas scenario) (Str ''A'')
   \<and> avg_attempts simple_pandas (normalized simple_pandas scenario) (Str ''A'') = 2
   \<and> connectivity_perc simple_pandas (normalized simple_pandas scenario) scenario_latest (Str ''A'') = 1"
proof -
  have u0: "unique_leads (normalized simple_pandas only_no_number_log) (Str ''B'') = 0"
    by (simp add: unique_leads_def nunique_def bot_df_all_def rows_select_rows
        only_no_number_log_def frame_eval)
  have u1: "unique_leads (normalized simple_pandas scenario) (Str ''A'') = 1"
    by (simp add: unique_leads_def nunique_def bot_df_all_def rows_select_rows scenario_def frame_eval)
  have t1: "total_attempts (normalized simple_pandas scenario) (Str ''A'') = 2"
    by (simp add: total_attempts_def bot_df_all_def rows_select_rows scenario_def frame_eval)
  have c1: "connected_count scenario_latest (Str ''A'') = 1"
    by (simp add: connected_count_def count_leads_def bot_latest_def rows_select_rows nunique_def
        scenario_latest_def scenario_def rows_add_flags frame_eval is_connected_def)
  have z: "avg_attempts simple_pandas (normalized simple_pandas only_no_number_log) (Str ''B'') = 0
     \<and> connectivity_perc simple_pandas (normalized simple_pandas only_no_number_log)
        (add_flags (latest_per_lead simple_pandas (normalized simple_pandas only_no_number_log)))
        (Str ''B'') = 0"
    using ratio_metrics [OF sorts_simple_pandas, of only_no_number_log "Str ''B''"] u0 by blast
  have p: "avg_attempts simple_pandas (normalized simple_pandas scenario) (Str ''A'')
             = round2 simple_pandas (of_nat 2 / of_nat 1)
     \<and> connectivity_perc simple_pandas (normalized simple_pandas scenario) scenario_latest (Str ''A'')
             = round2 simple_pandas (of_nat 1 / of_nat 1)"
    using ratio_metrics [OF sorts_simple_pandas, of scenario "Str ''A''"] u1 t1 c1
    unfolding scenario_latest_def [symmetric] by simp
  show ?thesis
    using z p u0 u1 by (simp add: sorts_simple_pandas round2_simple_pandas)
qed

section \<open>Attempts with no mobile number\<close>

lemma group_keys_with_mobile:
  "group_keys (filter (\<lambda>r. r ''mobile_number'' \<noteq> NA) rs) = group_keys rs"
proof -
  have "filter has_key (filter (\<lambda>r. r ''mobile_number'' \<noteq> NA) rs) = filter has_key rs"
    by (auto simp: has_key_def intro: filter_cong)
  then show ?thesis
    by (simp add: group_keys_def)
qed

lemma groupby_last_with_mobile:
  "groupby_last (select_rows (\<lambda>r. r ''mobile_number'' \<noteq> NA) df) = groupby_last df"
proof -
  have "filter has_key (filter (\<lambda>r. r ''mobile_number'' \<noteq> NA) (rows df)) = filter has_key (rows df)"
    by (auto simp: has_key_def intro: filter_cong)
  then show ?thesis
    by (simp add: groupby_last_def rows_select_rows columns_select_rows group_keys_with_mobile)
qed

lemma mobile_add_flags:
  "r \<in> set (rows (add_flags lp)) \<Longrightarrow> \<exists>r0 \<in> set (rows lp). r ''mobile_number'' = r0 ''mobile_number''"
  by (auto simp: rows_add_flags)

lemma mobile_lead_summary:
  assumes "r \<in> set (rows (lead_summary (add_flags lp)))"
  shows "\<exists>r0 \<in> set (rows lp). r ''mobile_number'' = r0 ''mobile_number''"
proof -
  from assms obtain r1 where r1: "r1 \<in> set (rows (add_flags lp))"
    and e: "r ''mobile_number'' = r1 ''mobile_number''"
    by (auto simp: lead_summary_def Let_def select_columns_def lead_summary_cols_def)
  from mobile_add_flags [OF r1] e show ?thesis by auto
qed

text \<open>
  C10. An attempt with no mobile number counts in its bot's total attempts and in nothing
  else: the unique leads are those of the attempts that have a mobile number, the
  latest-state table is the grouping of the attempts that have one, and no row of that
  table, nor of any of the seven sheets, lacks a mobile number.
\<close>

theorem no_mobile_number_rows:
  "total_attempts df b
     = length (filter (\<lambda>r. r ''bot'' = b \<and> r ''mobile_number'' \<noteq> NA) (rows df))
       + length (filter (\<lambda>r. r ''bot'' = b \<and> r ''mobile_number'' = NA) (rows df))
   \<and> unique_leads df b = unique_leads (select_rows (\<lambda>r. r ''mobile_number'' \<noteq> NA) df) b
   \<and> latest_per_lead P df
       = groupby_last (select_rows (\<lambda>r. r ''mobile_number'' \<noteq> NA) (sort_by_date P df))
   \<and> (\<forall>r \<in> set (rows (latest_per_lead P df)). r ''mobile_number'' \<noteq> NA)
   \<and> (\<forall>s \<in> set (sheets_by_category (latest_per_lead P df)).
         \<forall>r \<in> set (rows (snd s)). r ''mobile_number'' \<noteq> NA)"
proof (intro conjI)
  have "length (filter (\<lambda>r. r ''bot'' = b) (rows df))
      = length (filter (\<lambda>r. r ''mobile_number'' \<noteq> NA) (filter (\<lambda>r. r ''bot'' = b) (rows df)))
        + length (filter (\<lambda>r. \<not> r ''mobile_number'' \<noteq> NA) (filter (\<lambda>r. r ''bot'' = b) (rows df)))"
    by (rule sum_length_filter_compl [symmetric])
  then show "total_attempts df b
     = length (filter (\<lambda>r. r ''bot'' = b \<and> r ''mobile_number'' \<noteq> NA) (rows df))
       + length (filter (\<lambda>r. r ''bot'' = b \<and> r ''mobile_number'' = NA) (rows df))"
    by (simp add: total_attempts_def bot_df_all_def rows_select_rows conj_commute)
next
  have "set (map (\<lambda>r. r ''mobile_number'')
               (filter (\<lambda>r. r ''bot'' = b) (filter (\<lambda>r. r ''mobile_number'' \<noteq> NA) (rows df)))) - {NA}
      = set (map (\<lambda>r. r ''mobile_number'') (filter (\<lambda>r. r ''bot'' = b) (rows df))) - {NA}"
    by auto
  then show "unique_leads df b = unique_leads (select_rows (\<lambda>r. r ''mobile_number'' \<noteq> NA) df) b"
    by (simp add: unique_leads_def nunique_card bot_df_all_def column_def rows_select_rows
        del: set_map set_filter)
next
  show "latest_per_lead P df
       = groupby_last (select_rows (\<lambda>r. r ''mobile_number'' \<noteq> NA) (sort_by_date P df))"
    by (simp add: latest_per_lead_def groupby_last_with_mobile)
next
  show m: "\<forall>r \<in> set (rows (latest_per_lead P df)). r ''mobile_number'' \<noteq> NA"
    by (auto simp: latest_per_lead_def dest: mobile_not_NA_groupby_last)
  show "\<forall>s \<in> set (sheets_by_category (latest_per_lead P df)).
         \<forall>r \<in> set (rows (snd s)). r ''mobile_number'' \<noteq> NA"
  proof -
    have "\<forall>r \<in> set (rows (lead_summary (add_flags (latest_per_lead P df)))).
            r ''mobile_number'' \<noteq> NA"
      using m mobile_lead_summary [of _ "latest_per_lead P df"] by metis
    with m show ?thesis
      by (simp add: sheets_by_category_def rows_select_rows)
  qed
qed

theorem no_mobile_number_rows_witness:
  "total_attempts (normalized simple_pandas no_number_log) (Str ''A'') = 2
   \<and> unique_leads (normalized simple_pandas no_number_log) (Str ''A'') = 1
   \<and> column ''mobile_number'' (latest_per_lead simple_pandas (normalized simple_pandas no_number_log))
       = [Str ''111'']"
proof -
  have f1: "length (filter (\<lambda>r. r ''bot'' = Str ''A'' \<and> r ''mobile_number'' \<noteq> NA)
                      (rows (normalized simple_pandas no_number_log))) = 1"
    and f2: "length (filter (\<lambda>r. r ''bot'' = Str ''A'' \<and> r ''mobile_number'' = NA)
                      (rows (normalized simple_pandas no_number_log))) = 1"
    by (simp_all add: no_number_log_def frame_eval)
  have u: "unique_leads (select_rows (\<lambda>r. r ''mobile_number'' \<noteq> NA)
                           (normalized simple_pandas no_number_log)) (Str ''A'') = 1"
    by (simp add: unique_leads_def nunique_def bot_df_all_def rows_select_rows
        no_number_log_def frame_eval)
  have c: "column ''mobile_number'' (latest_per_lead simple_pandas (normalized simple_pandas no_number_log))
             = [Str ''111'']"
    by (simp add: no_number_log_def frame_eval)
  have "total_attempts (normalized simple_pandas no_number_log) (Str ''A'') = 1 + 1
     \<and> unique_leads (normalized simple_pandas no_number_log) (Str ''A'') = 1"
    using no_mobile_number_rows [of "normalized simple_pandas no_number_log" "Str ''A''" simple_pandas]
    unfolding f1 f2 u by blast
  with c show ?thesis by simp
qed

section \<open>The latest state of a lead\<close>

lemma filter_eq_singleton: "distinct xs \<Longrightarrow> k \<in> set xs \<Longrightarrow> filter (\<lambda>x. x = k) xs = [k]"
  by (induction xs) (auto simp: filter_empty_conv)

lemma last_filter_keep: "xs \<noteq> [] \<Longrightarrow> P (last xs) \<Longrightarrow> last (filter P xs) = last xs"
  by (induction xs) (auto simp: filter_empty_conv)

lemma last_valid_last:
  assumes "cs \<noteq> []" and "last cs \<noteq> NA"
  shows "last_valid cs = last cs"
proof -
  have l: "last (filter (\<lambda>c. c \<noteq> NA) cs) = last cs"
    using assms by (rule last_filter_keep)
  have "last cs \<in> set (filter (\<lambda>c. c \<noteq> NA) cs)"
    using assms by simp
  then have "filter (\<lambda>c. c \<noteq> NA) cs \<noteq> []"
    by (metis empty_iff list.set(1))
  then obtain y ys where f: "filter (\<lambda>c. c \<noteq> NA) cs = y # ys"
    by (cases "filter (\<lambda>c. c \<noteq> NA) cs") auto
  from l have "last (y # ys) = last cs"
    unfolding f .
  then show ?thesis
    unfolding last_valid_def f by simp
qed

lemma group_of_key:
  assumes "has_key a"
  shows "filter (\<lambda>r. lead_key r = lead_key a) (filter has_key rs)
           = filter (\<lambda>r. lead_key r = lead_key a) rs"
proof -
  have "lead_key r = lead_key a \<Longrightarrow> has_key r" for r
    using assms by (simp add: has_key_lead_key)
  then show ?thesis
    by (auto intro: filter_cong)
qed

lemma group_of_key_conj:
  assumes "has_key a"
  shows "filter (\<lambda>r. has_key r \<and> lead_key r = lead_key a) rs
           = filter (\<lambda>r. lead_key r = lead_key a) rs"
  using group_of_key [OF assms, of rs] by simp

text \<open>The grouped table has exactly one row for the lead of an attempt that has a key.\<close>

lemma lead_row_groupby_last:
  assumes "a \<in> set (rows df)" and "has_key a"
  shows "filter (\<lambda>s. lead_key s = lead_key a) (rows (groupby_last df))
           = [agg_last (filter (\<lambda>r. lead_key r = lead_key a) (rows df)) (lead_key a)]"
proof -
  have "lead_key a \<in> set (group_keys (rows df))"
    using assms by (auto simp: set_group_keys)
  then have "filter (\<lambda>k. k = lead_key a) (group_keys (rows df)) = [lead_key a]"
    using distinct_group_keys by (rule filter_eq_singleton [rotated])
  then show ?thesis
    by (simp add: rows_groupby_last filter_map comp_def lead_key_agg_last group_of_key_conj [OF assms(2)])
qed

lemma sorted_le_last: "sorted xs \<Longrightarrow> x \<in> set xs \<Longrightarrow> (x :: 'a :: linorder) \<le> last xs"
proof (induction xs)
  case Nil
  then show ?case by simp
next
  case (Cons y ys)
  show ?case
  proof (cases "ys = []")
    case True
    with Cons.prems show ?thesis by simp
  next
    case False
    then have "last ys \<in> set ys" by simp
    with Cons False show ?thesis by auto
  qed
qed

text \<open>
  What line 24 gives for a lead. Take an attempt of the normalized frame that has a
  mobile number, and the attempts of its lead in the order the sort gives them. The last
  of them has the greatest timestamp of the lead (so among attempts of equal greatest
  timestamp it is the one the sort puts last), and the latest-state table has exactly one
  row for the lead. Each field of that row is the last value of the field among the
  lead's attempts that is not missing: it is the last attempt's value wherever that
  attempt has one, which is always so for the keys, the date, the recording URL and the
  contacted flag.
\<close>

lemma latest_state_of_lead:
  assumes "sorts P"
    and "a \<in> set (rows (normalized P df))" and "a ''mobile_number'' \<noteq> NA"
    and "grp = filter (\<lambda>r. lead_key r = lead_key a) (sort_values P date_key (rows (normalized P df)))"
  shows "grp \<noteq> []
    \<and> set grp = {r \<in> set (rows (normalized P df)). lead_key r = lead_key a}
    \<and> (\<forall>r \<in> set grp. date_key r \<le> date_key (last grp))
    \<and> (\<exists>s. filter (\<lambda>s. lead_key s = lead_key a) (rows (latest_per_lead P (normalized P df))) = [s]
          \<and> (\<forall>c. last grp c \<noteq> NA \<longrightarrow> s c = last grp c)
          \<and> (\<forall>c. c \<noteq> ''bot'' \<and> c \<noteq> ''mobile_number'' \<longrightarrow> s c = last_valid (map (\<lambda>r. r c) grp))
          \<and> s ''date'' = last grp ''date''
          \<and> s ''recording_url'' = last grp ''recording_url''
          \<and> s ''contacted'' = last grp ''contacted'')"
proof -
  let ?w = "normalized P df"
  let ?srt = "sort_values P date_key (rows ?w)"
  let ?s = "agg_last grp (lead_key a)"
  have hk: "has_key a"
    using assms(2,3) normalized_row_cells(1) by (simp add: has_key_def)
  have st: "set ?srt = set (rows ?w)"
    using assms(1) by (rule sorts_set)
  have sg: "set grp = {r \<in> set (rows ?w). lead_key r = lead_key a}"
    by (auto simp: assms(4) st)
  then have ne: "grp \<noteq> []"
    using assms(2) by auto
  then have lg: "last grp \<in> set grp"
    by simp
  then have lw: "last grp \<in> set (rows ?w)" and lk: "lead_key (last grp) = lead_key a"
    using sg by auto
  have "sorted (map date_key ?srt)"
    using assms(1) by (rule sorts_sorted)
  then have "sorted (map date_key grp)"
    unfolding assms(4) by (rule sorted_filter)
  then have "\<forall>t \<in> set (map date_key grp). t \<le> last (map date_key grp)"
    by (blast intro: sorted_le_last)
  moreover have "last (map date_key grp) = date_key (last grp)"
    using ne by (rule last_map)
  ultimately have mx: "\<forall>r \<in> set grp. date_key r \<le> date_key (last grp)"
    by simp
  have one: "filter (\<lambda>s. lead_key s = lead_key a) (rows (latest_per_lead P ?w)) = [?s]"
  proof -
    have "a \<in> set (rows (sort_by_date P ?w))"
      using assms(2) st by (simp add: rows_sort_by_date)
    from lead_row_groupby_last [OF this hk] show ?thesis
      by (simp add: latest_per_lead_def rows_sort_by_date assms(4))
  qed
  have other: "?s c = last_valid (map (\<lambda>r. r c) grp)" if "c \<noteq> ''bot'' \<and> c \<noteq> ''mobile_number''" for c
    using that by (simp add: agg_last_def)
  have keep: "?s c = last grp c" if "last grp c \<noteq> NA" for c
  proof (cases "c = ''bot'' \<or> c = ''mobile_number''")
    case True
    then show ?thesis
      using lk by (auto simp: agg_last_def lead_key_def)
  next
    case False
    have "last (map (\<lambda>r. r c) grp) = last grp c"
      using ne by (simp add: last_map)
    then have "last_valid (map (\<lambda>r. r c) grp) = last grp c"
      using that ne by (simp add: last_valid_last)
    with False show ?thesis
      by (simp add: other)
  qed
  have d: "?s ''date'' = last grp ''date''"
    using normalized_row_cells(2) [OF lw] by (intro keep) auto
  have u: "?s ''recording_url'' = last grp ''recording_url''"
    using normalized_row_cells(3) [OF lw] by (intro keep) auto
  have n: "?s ''contacted'' = last grp ''contacted''"
    using normalized_row_cells(4) [OF lw] by (intro keep) auto
  from ne sg mx one keep other d u n show ?thesis
    by blast
qed

text \<open>On the two attempts of the first example the latest state is the later attempt.\<close>

lemma latest_state_of_lead_scenario:
  "sorts simple_pandas
   \<and> (\<exists>s. filter (\<lambda>s. lead_key s = (Str ''A'', Str ''111''))
              (rows (latest_per_lead simple_pandas (normalized simple_pandas scenario))) = [s]
          \<and> s ''date'' = Ts 2
          \<and> s ''recording_url'' = Str ''http://x''
          \<and> s ''outcome'' = Str ''lost'')"
proof -
  define a where "a = last (rows (normalized simple_pandas scenario))"
  define g where "g = filter (\<lambda>r. lead_key r = lead_key a)
                        (sort_values simple_pandas date_key (rows (normalized simple_pandas scenario)))"
  have m: "a \<in> set (rows (normalized simple_pandas scenario))"
    by (simp add: a_def scenario_def frame_eval)
  have n: "a ''mobile_number'' \<noteq> NA"
    by (simp add: a_def scenario_def frame_eval)
  have k: "lead_key a = (Str ''A'', Str ''111'')"
    by (simp add: a_def scenario_def frame_eval)
  have e: "last g ''date'' = Ts 2" "last g ''recording_url'' = Str ''http://x''"
    "last g ''outcome'' = Str ''lost''"
    by (simp_all add: g_def k a_def scenario_def frame_eval)
  note t = latest_state_of_lead [OF sorts_simple_pandas m n g_def]
  from t [THEN conjunct2, THEN conjunct2, THEN conjunct2]
  obtain s where s: "filter (\<lambda>s. lead_key s = lead_key a)
                       (rows (latest_per_lead simple_pandas (normalized simple_pandas scenario))) = [s]"
    and c: "\<forall>c. last g c \<noteq> NA \<longrightarrow> s c = last g c"
    by (elim exE conjE)
  have "s ''date'' = Ts 2"
    using c [rule_format, of "''date''"] e(1) by simp
  moreover have "s ''recording_url'' = Str ''http://x''"
    using c [rule_format, of "''recording_url''"] e(2) by simp
  moreover have "s ''outcome'' = Str ''lost''"
    using c [rule_format, of "''outcome''"] e(3) by simp
  ultimately have "filter (\<lambda>s. lead_key s = (Str ''A'', Str ''111''))
              (rows (latest_per_lead simple_pandas (normalized simple_pandas scenario))) = [s]
          \<and> s ''date'' = Ts 2
          \<and> s ''recording_url'' = Str ''http://x''
          \<and> s ''outcome'' = Str ''lost''"
    using s unfolding k by simp
  then show ?thesis
    using sorts_simple_pandas by (intro conjI exI [of _ s]) simp_all
qed

text \<open>
  C2. The latest state of a lead is to be its attempt of the greatest timestamp, with
  every field of that attempt. Line 24 sorts the attempts by date and takes
  \<open>GroupBy.last()\<close>, which skips missing values column by column: on the lead whose
  later attempt has no outcome, the row of the latest-state table has the date and the
  recording of the later attempt and the outcome of the earlier one, so the lead is in
  the sheet of lost leads by its first call and in the sheet of connected leads by its
  second, and this row is no attempt of the lead.
\<close>

theorem latest_outcome_from_earlier_attempt:
  "column ''date'' (normalized simple_pandas stale_outcome_log) = [Ts 1, Ts 2]
   \<and> column ''outcome'' (normalized simple_pandas stale_outcome_log) = [Str ''lost'', NA]
   \<and> column ''recording_url'' (normalized simple_pandas stale_outcome_log) = [Str [], Str ''http://x'']
   \<and> column ''date'' (latest_per_lead simple_pandas (normalized simple_pandas stale_outcome_log)) = [Ts 2]
   \<and> column ''outcome'' (latest_per_lead simple_pandas (normalized simple_pandas stale_outcome_log))
       = [Str ''lost'']
   \<and> column ''recording_url'' (latest_per_lead simple_pandas (normalized simple_pandas stale_outcome_log))
       = [Str ''http://x'']
   \<and> length (rows (select_rows is_lost
        (latest_per_lead simple_pandas (normalized simple_pandas stale_outcome_log)))) = 1
   \<and> length (rows (select_rows is_connected
        (latest_per_lead simple_pandas (normalized simple_pandas stale_outcome_log)))) = 1"
  by (simp add: stale_outcome_log_def frame_eval rows_select_rows is_lost_def is_connected_def)

section \<open>The summary table\<close>

lemma bot_loop_rows:
  "unique_leads_row (bot_loop P df lp bots m)
     = fold (\<lambda>b. AList.update b (Count (unique_leads df b))) bots (unique_leads_row m)
   \<and> total_attempts_row (bot_loop P df lp bots m)
     = fold (\<lambda>b. AList.update b (Count (total_attempts df b))) bots (total_attempts_row m)
   \<and> avg_attempts_row (bot_loop P df lp bots m)
     = fold (\<lambda>b. AList.update b (Float (avg_attempts P df b))) bots (avg_attempts_row m)
   \<and> connected_row (bot_loop P df lp bots m)
     = fold (\<lambda>b. AList.update b (Count (connected_count lp b))) bots (connected_row m)
   \<and> connectivity_perc_row (bot_loop P df lp bots m)
     = fold (\<lambda>b. AList.update b (Float (connectivity_perc P df lp b))) bots (connectivity_perc_row m)
   \<and> not_connected_row (bot_loop P df lp bots m)
     = fold (\<lambda>b. AList.update b (Count (not_connected_count lp b))) bots (not_connected_row m)
   \<and> follow_up_row (bot_loop P df lp bots m)
     = fold (\<lambda>b. AList.update b (Count (follow_up_count lp b))) bots (follow_up_row m)
   \<and> assigned_agent_row (bot_loop P df lp bots m)
     = fold (\<lambda>b. AList.update b (Count (assigned_to_agent lp b))) bots (assigned_agent_row m)
   \<and> lost_row (bot_loop P df lp bots m)
     = fold (\<lambda>b. AList.update b (Count (lost lp b))) bots (lost_row m)
   \<and> converted_row (bot_loop P df lp bots m)
     = fold (\<lambda>b. AList.update b (Count (converted lp b))) bots (converted_row m)"
  by (induction bots arbitrary: m) (simp_all add: store_bot_def)

text \<open>Storing a value for each of a list of new, distinct keys.\<close>

lemma keys_fold_update:
  "distinct bs \<Longrightarrow> set bs \<inter> fst ` set d = {} \<Longrightarrow>
     map fst (fold (\<lambda>b. AList.update b (v b)) bs d) = map fst d @ bs"
proof (induction bs arbitrary: d)
  case Nil
  then show ?case by simp
next
  case (Cons b bs)
  have k: "map fst (AList.update b (v b) d) = map fst d @ [b]"
    using Cons.prems(2) by (simp add: update_keys image_iff)
  have "set (map fst (AList.update b (v b) d)) = set (map fst d @ [b])"
    by (simp only: k)
  then have "fst ` set (AList.update b (v b) d) = insert b (fst ` set d)"
    by simp
  then have "set bs \<inter> fst ` set (AList.update b (v b) d) = {}"
    using Cons.prems by auto
  with Cons.IH [of "AList.update b (v b) d"] Cons.prems(1) k show ?case
    by simp
qed

lemma map_of_fold_update_other:
  "k \<notin> set bs \<Longrightarrow> map_of (fold (\<lambda>b. AList.update b (v b)) bs d) k = map_of d k"
  by (induction bs arbitrary: d) (simp_all add: update_conv')

lemma map_of_fold_update_stored:
  "k \<in> set bs \<Longrightarrow> map_of (fold (\<lambda>b. AList.update b (v b)) bs d) k = Some (v k)"
proof (induction bs arbitrary: d)
  case Nil
  then show ?case by simp
next
  case (Cons b bs)
  show ?case
  proof (cases "k \<in> set bs")
    case True
    then show ?thesis by (simp add: Cons.IH)
  next
    case False
    with Cons.prems have "k = b" by simp
    with False show ?thesis
      by (simp add: map_of_fold_update_other update_conv')
  qed
qed

lemma remdups_append_subset: "set xs \<subseteq> set ys \<Longrightarrow> remdups (xs @ ys) = remdups ys"
  by (induction xs) auto

lemma unique_append_subset: "distinct xs \<Longrightarrow> set ys \<subseteq> set xs \<Longrightarrow> unique (xs @ ys) = xs"
  by (simp add: unique_def remdups_append_subset distinct_remdups_id)

lemma unique_concat_same:
  assumes "ds \<noteq> []" and "distinct xs" and "\<forall>d \<in> set ds. map fst d = xs"
  shows "unique (concat (map (map fst) ds)) = xs"
proof -
  from assms(1) obtain d ds' where ds: "ds = d # ds'"
    by (cases ds) auto
  have "set (concat (map (map fst) ds')) \<subseteq> set xs"
    using assms(3) ds by auto
  moreover have "concat (map (map fst) ds) = xs @ concat (map (map fst) ds')"
    using assms(3) ds by simp
  ultimately show ?thesis
    using assms(2) by (simp add: unique_append_subset)
qed

text \<open>One metric row after the loop, when no bot has the key of the label.\<close>

lemma metric_row_after_loop:
  assumes "distinct bots" and "Str ''Metric'' \<notin> set bots"
    and "d = fold (\<lambda>b. AList.update b (v b)) bots [(Str ''Metric'', l)]"
  shows "map fst d = Str ''Metric'' # bots"
    and "map_of d (Str ''Metric'') = Some l"
    and "map (map_of d) bots = map (\<lambda>b. Some (v b)) bots"
proof -
  show "map fst d = Str ''Metric'' # bots"
    using assms by (simp add: keys_fold_update)
  show "map_of d (Str ''Metric'') = Some l"
    using assms(2) by (simp add: assms(3) map_of_fold_update_other)
  show "map (map_of d) bots = map (\<lambda>b. Some (v b)) bots"
    by (simp add: assms(3) map_of_fold_update_stored)
qed

text \<open>
  The summary for distinct bots none of which is named \<open>Metric\<close>: the ten labels in
  their order, one column per bot in the order of the bots, and in each row the bot's
  value of that metric.
\<close>

lemma summary_shape:
  assumes "distinct bots" and "Str ''Metric'' \<notin> set bots"
  shows "index (report_df P df lp bots)
           = [Some (Label ''Unique leads''), Some (Label ''Total Attempts''),
              Some (Label ''Avg Attempts''), Some (Label ''Connected''),
              Some (Label ''Connectivity % :''), Some (Label ''Not Connected''),
              Some (Label ''Follow Up''), Some (Label ''Assigned to human agent''),
              Some (Label ''Lost''), Some (Label ''Converted'')]"
    and "bot_columns (report_df P df lp bots) = bots"
    and "cells (report_df P df lp bots)
           = [map (\<lambda>b. Some (Count (unique_leads df b))) bots,
              map (\<lambda>b. Some (Count (total_attempts df b))) bots,
              map (\<lambda>b. Some (Float (avg_attempts P df b))) bots,
              map (\<lambda>b. Some (Count (connected_count lp b))) bots,
              map (\<lambda>b. Some (Float (connectivity_perc P df lp b))) bots,
              map (\<lambda>b. Some (Count (not_connected_count lp b))) bots,
              map (\<lambda>b. Some (Count (follow_up_count lp b))) bots,
              map (\<lambda>b. Some (Count (assigned_to_agent lp b))) bots,
              map (\<lambda>b. Some (Count (lost lp b))) bots,
              map (\<lambda>b. Some (Count (converted lp b))) bots]"
proof -
  note m = metric_row_after_loop [OF assms refl]
  have ds: "report_data (bot_loop P df lp bots initial_rows)
      = [fold (\<lambda>b. AList.update b (Count (unique_leads df b))) bots [(Str ''Metric'', Label ''Unique leads'')],
         fold (\<lambda>b. AList.update b (Count (total_attempts df b))) bots [(Str ''Metric'', Label ''Total Attempts'')],
         fold (\<lambda>b. AList.update b (Float (avg_attempts P df b))) bots [(Str ''Metric'', Label ''Avg Attempts'')],
         fold (\<lambda>b. AList.update b (Count (connected_count lp b))) bots [(Str ''Metric'', Label ''Connected'')],
         fold (\<lambda>b. AList.update b (Float (connectivity_perc P df lp b))) bots [(Str ''Metric'', Label ''Connectivity % :'')],
         fold (\<lambda>b. AList.update b (Count (not_connected_count lp b))) bots [(Str ''Metric'', Label ''Not Connected'')],
         fold (\<lambda>b. AList.update b (Count (follow_up_count lp b))) bots [(Str ''Metric'', Label ''Follow Up'')],
         fold (\<lambda>b. AList.update b (Count (assigned_to_agent lp b))) bots [(Str ''Metric'', Label ''Assigned to human agent'')],
         fold (\<lambda>b. AList.update b (Count (lost lp b))) bots [(Str ''Metric'', Label ''Lost'')],
         fold (\<lambda>b. AList.update b (Count (converted lp b))) bots [(Str ''Metric'', Label ''Converted'')]]"
    unfolding report_data_def
    using bot_loop_rows [of P df lp bots initial_rows] by (simp add: initial_rows_def)
  have cols: "dict_columns (report_data (bot_loop P df lp bots initial_rows)) = Str ''Metric'' # bots"
    unfolding dict_columns_def
    by (rule unique_concat_same) (use assms in \<open>simp_all add: ds m(1)\<close>)
  show "index (report_df P df lp bots)
           = [Some (Label ''Unique leads''), Some (Label ''Total Attempts''),
              Some (Label ''Avg Attempts''), Some (Label ''Connected''),
              Some (Label ''Connectivity % :''), Some (Label ''Not Connected''),
              Some (Label ''Follow Up''), Some (Label ''Assigned to human agent''),
              Some (Label ''Lost''), Some (Label ''Converted'')]"
    by (simp add: report_df_def set_index_metric_def Let_def) (simp add: ds m(2))
  have "filter (\<lambda>c. c \<noteq> Str ''Metric'') bots = bots"
    using assms(2) by (auto simp: filter_id_conv)
  then have f: "filter (\<lambda>c. c \<noteq> Str ''Metric'') (Str ''Metric'' # bots) = bots"
    by simp
  show "bot_columns (report_df P df lp bots) = bots"
    by (simp add: report_df_def set_index_metric_def Let_def cols f del: filter.simps)
  show "cells (report_df P df lp bots)
           = [map (\<lambda>b. Some (Count (unique_leads df b))) bots,
              map (\<lambda>b. Some (Count (total_attempts df b))) bots,
              map (\<lambda>b. Some (Float (avg_attempts P df b))) bots,
              map (\<lambda>b. Some (Count (connected_count lp b))) bots,
              map (\<lambda>b. Some (Float (connectivity_perc P df lp b))) bots,
              map (\<lambda>b. Some (Count (not_connected_count lp b))) bots,
              map (\<lambda>b. Some (Count (follow_up_count lp b))) bots,
              map (\<lambda>b. Some (Count (assigned_to_agent lp b))) bots,
              map (\<lambda>b. Some (Count (lost lp b))) bots,
              map (\<lambda>b. Some (Count (converted lp b))) bots]"
    by (simp add: report_df_def set_index_metric_def Let_def cols f del: filter.simps)
      (simp add: ds m(3))
qed

text \<open>
  The whole function on a frame whose \<open>outcome\<close> column line 7 accepts and that passes
  the check, whose bot names sort and none of which is \<open>Metric\<close>: the ten labels, and the
  sorted distinct bot names as columns.
\<close>

lemma calculate_report_summary:
  assumes "missing_cols df = []" and "all_bots (normalized P df) = Inr bots"
    and "Str ''Metric'' \<notin> set bots"
    and "infer_dtype (column ''outcome'' df) \<in> set allowed_types"
  shows "\<exists>s sh. snd (calculate_report P df) = Inr (Report s sh)
           \<and> index s
               = [Some (Label ''Unique leads''), Some (Label ''Total Attempts''),
                  Some (Label ''Avg Attempts''), Some (Label ''Connected''),
                  Some (Label ''Connectivity % :''), Some (Label ''Not Connected''),
                  Some (Label ''Follow Up''), Some (Label ''Assigned to human agent''),
                  Some (Label ''Lost''), Some (Label ''Converted'')]
           \<and> bot_columns s = sort_key cell_key (unique (column ''bot'' (normalized P df)))"
proof -
  have d: "distinct bots"
    using assms(2) by (rule all_bots_Inr(3))
  have b: "bots = sort_key cell_key (unique (column ''bot'' (normalized P df)))"
    using assms(2) by (rule all_bots_Inr(1))
  show ?thesis
    using summary_shape(1,2) [OF d assms(3)] b
    by (simp add: calculate_report_snd_ok [OF assms(4) assms(1)] assms(2))
qed

text \<open>The summary when the only bot is named \<open>Metric\<close>: its values take the place of the labels.\<close>

lemma report_df_metric_bot:
  "report_df P df lp [Str ''Metric'']
     = \<lparr>index = [Some (Count (unique_leads df (Str ''Metric''))),
                 Some (Count (total_attempts df (Str ''Metric''))),
                 Some (Float (avg_attempts P df (Str ''Metric''))),
                 Some (Count (connected_count lp (Str ''Metric''))),
                 Some (Float (connectivity_perc P df lp (Str ''Metric''))),
                 Some (Count (not_connected_count lp (Str ''Metric''))),
                 Some (Count (follow_up_count lp (Str ''Metric''))),
                 Some (Count (assigned_to_agent lp (Str ''Metric''))),
                 Some (Count (lost lp (Str ''Metric''))),
                 Some (Count (converted lp (Str ''Metric'')))],
        bot_columns = [],
        cells = [[], [], [], [], [], [], [], [], [], []]\<rparr>"
  by (simp add: report_df_def set_index_metric_def report_data_def store_bot_def initial_rows_def
      dict_columns_def unique_def)

text \<open>
  C7. The summary is to have the ten labelled rows and the sorted bot names as columns.
  The label of a row and the values of the bots are stored in one dictionary, the label
  under the key \<open>Metric\<close>: for a bot named \<open>Metric\<close> the loop overwrites the label, and
  the summary has numbers for its row labels and no column for that bot.
\<close>

theorem metric_bot_replaces_labels:
  "\<exists>s sh. snd (calculate_report simple_pandas metric_bot_log) = Inr (Report s sh)
     \<and> index s = [Some (Count 1), Some (Count 1), Some (Float 1), Some (Count 1), Some (Float 1),
                   Some (Count 0), Some (Count 0), Some (Count 0), Some (Count 1), Some (Count 0)]
     \<and> bot_columns s = []
     \<and> column ''bot'' (normalized simple_pandas metric_bot_log) = [Str ''Metric'']"
proof -
  let ?w = "normalized simple_pandas metric_bot_log"
  let ?lp = "add_flags (latest_per_lead simple_pandas ?w)"
  have m: "missing_cols metric_bot_log = []"
    by (simp add: metric_bot_log_def call_log_def required_cols_def missing_cols_def)
  have c: "column ''bot'' ?w = [Str ''Metric'']"
    by (simp add: metric_bot_log_def frame_eval)
  then have ab: "all_bots ?w = Inr [Str ''Metric'']"
    by (simp add: all_bots_def py_sorted_def unique_def same_kind_def)
  have u: "unique_leads ?w (Str ''Metric'') = 1"
    by (simp add: unique_leads_def nunique_def bot_df_all_def rows_select_rows
        metric_bot_log_def frame_eval)
  have t: "total_attempts ?w (Str ''Metric'') = 1"
    by (simp add: total_attempts_def bot_df_all_def rows_select_rows metric_bot_log_def frame_eval)
  have n: "connected_count ?lp (Str ''Metric'') = 1" "not_connected_count ?lp (Str ''Metric'') = 0"
    "follow_up_count ?lp (Str ''Metric'') = 0" "assigned_to_agent ?lp (Str ''Metric'') = 0"
    "lost ?lp (Str ''Metric'') = 1" "converted ?lp (Str ''Metric'') = 0"
    by (simp_all add: connected_count_def not_connected_count_def follow_up_count_def
        assigned_to_agent_def lost_def converted_def count_leads_def bot_latest_def
        rows_select_rows nunique_def rows_add_flags metric_bot_log_def frame_eval
        is_connected_def is_not_connected_def is_follow_up_def is_assigned_def is_lost_def
        is_converted_def follow_up_exclude_def)
  have a: "avg_attempts simple_pandas ?w (Str ''Metric'') = 1"
    "connectivity_perc simple_pandas ?w ?lp (Str ''Metric'') = 1"
    by (simp_all add: avg_attempts_def connectivity_perc_def u t n round2_simple_pandas)
  have "snd (calculate_report simple_pandas metric_bot_log)
          = Inr (Report (report_df simple_pandas ?w ?lp [Str ''Metric''])
                        (sheets_by_category (latest_per_lead simple_pandas ?w)))"
    by (simp add: calculate_report_snd_ok [OF accepted_outcome_examples(4) m] ab)
  then show ?thesis
    by (simp add: report_df_metric_bot u t n a c)
qed
end
